theory Spec2Isabelle
  imports Complex_Main "HOL-Library.Sublist" "HOL-Library.List_Lexorder" "HOL-Library.Char_ord"
begin

section \<open>The host: numbers, strings, effects\<close>

text \<open>
  Strings are lists of bytes (UTF-8): the degree sign of the ISS section is the two bytes
  C2 B0. A JavaScript \<^verbatim>\<open>number\<close> that is integer-valued by its meaning (identifiers,
  counts, epoch seconds, HTTP status) is an \<^typ>\<open>int\<close> or a \<^typ>\<open>nat\<close>; a measured
  quantity (latitude, longitude, altitude) is the exact rational value of the finite double.

  What depends on the machine the program runs on is a parameter, the \<open>host\<close>:
  \<^item> \<open>numberToString\<close> is \<^verbatim>\<open>Number::toString\<close> where it is not plain decimal digits
    (non-integers, and magnitudes from \<open>10^21\<close> on, which print with an exponent);
  \<^item> \<open>toLocaleDateString\<close> is \<^verbatim>\<open>new Date(s).toLocaleDateString()\<close> on a date
    string \<open>s\<close>, which depends on the host's locale and time zone and never throws.
\<close>

record host =
  numberToString :: "rat \<Rightarrow> string"
  toLocaleDateString :: "string \<Rightarrow> string"

definition digit_char :: "nat \<Rightarrow> char" where
  "digit_char d = ''0123456789'' ! (d mod 10)"

fun show_nat :: "nat \<Rightarrow> string" where
  "show_nat n = (if n < 10 then [digit_char n] else show_nat (n div 10) @ [digit_char (n mod 10)])"

declare show_nat.simps [simp del]

definition show_int :: "int \<Rightarrow> string" where
  "show_int i = (if i < 0 then ''-'' @ show_nat (nat (- i)) else show_nat (nat i))"

text \<open>\<^verbatim>\<open>`${n}`\<close> for a number \<open>n\<close>: decimal digits for an integer below \<open>10^21\<close>.\<close>

definition number_toString :: "host \<Rightarrow> rat \<Rightarrow> string" where
  "number_toString h x =
     (if x = of_int \<lfloor>x\<rfloor> \<and> \<bar>x\<bar> < 10 ^ 21 then show_int \<lfloor>x\<rfloor> else numberToString h x)"

text \<open>
  Errors are values. \<open>NetworkError\<close> is the rejection of \<^verbatim>\<open>fetch\<close>, \<open>Error msg\<close> is
  \<^verbatim>\<open>new Error(msg)\<close>, \<open>SyntaxError\<close> is the rejection of \<^verbatim>\<open>response.json()\<close> on a
  body that is not JSON, \<open>RangeError\<close> is thrown by \<^verbatim>\<open>toISOString\<close> on an invalid date.
\<close>

datatype error = NetworkError | Error string | SyntaxError | RangeError

text \<open>The observable effects: an outbound request to a URL, and a line on the error console.\<close>

datatype event = Fetch string | ConsoleError string "error option"

text \<open>
  An asynchronous computation that has settled: the time it took, the value it resolved
  with (\<open>Inr\<close>) or the error it rejected with (\<open>Inl\<close>), and the effects it performed.
\<close>

datatype 'a io = Done (elapsed: nat) (result: "error + 'a") (events: "event list")

definition io_return :: "'a \<Rightarrow> 'a io" where
  "io_return v = Done 0 (Inr v) []"

definition io_throw :: "error \<Rightarrow> 'a io" where
  "io_throw e = Done 0 (Inl e) []"

definition io_bind :: "'a io \<Rightarrow> ('a \<Rightarrow> 'b io) \<Rightarrow> 'b io" where
  "io_bind m f =
     (case m of
        Done t (Inl e) tr \<Rightarrow> Done t (Inl e) tr
      | Done t (Inr v) tr \<Rightarrow> (case f v of Done t' r tr' \<Rightarrow> Done (t + t') r (tr @ tr')))"

definition try_catch :: "'a io \<Rightarrow> (error \<Rightarrow> 'a io) \<Rightarrow> 'a io" where
  "try_catch m handler =
     (case m of
        Done t (Inl e) tr \<Rightarrow> (case handler e of Done t' r tr' \<Rightarrow> Done (t + t') r (tr @ tr'))
      | Done t (Inr v) tr \<Rightarrow> Done t (Inr v) tr)"

definition console_error :: "string \<Rightarrow> error option \<Rightarrow> unit io" where
  "console_error msg e = Done 0 (Inr ()) [ConsoleError msg e]"

definition raises :: "'a io \<Rightarrow> bool" where
  "raises m = (case result m of Inl e \<Rightarrow> True | Inr v \<Rightarrow> False)"

definition returned :: "'a io \<Rightarrow> 'a option" where
  "returned m = (case result m of Inl e \<Rightarrow> None | Inr v \<Rightarrow> Some v)"

definition fetches :: "'a io \<Rightarrow> string list" where
  "fetches m = concat (map (\<lambda>ev. case ev of Fetch u \<Rightarrow> [u] | ConsoleError s e \<Rightarrow> []) (events m))"

subsection \<open>The network and the environment\<close>

text \<open>
  What the network does to one request is an input of the model: the request is rejected
  (network failure) or answered with a status and a body, after some latency. The body
  either is not JSON or parses to a value of the type the client expects.
\<close>

datatype 'a body = NotJson | Json 'a

datatype 'a exchange = NetworkFailure nat | Response nat nat "'a body"

type_synonym 'a response = "nat \<times> 'a body"

definition fetch :: "string \<Rightarrow> 'a exchange \<Rightarrow> 'a response io" where
  "fetch u x =
     (case x of
        NetworkFailure t \<Rightarrow> Done t (Inl NetworkError) [Fetch u]
      | Response t s b \<Rightarrow> Done t (Inr (s, b)) [Fetch u])"

definition response_ok :: "'a response \<Rightarrow> bool" where
  "response_ok r = (200 \<le> fst r \<and> fst r \<le> 299)"

definition response_status :: "'a response \<Rightarrow> nat" where
  "response_status r = fst r"

definition response_json :: "'a response \<Rightarrow> 'a io" where
  "response_json r = (case snd r of NotJson \<Rightarrow> io_throw SyntaxError | Json v \<Rightarrow> io_return v)"

text \<open>
  The three transport outcomes that are not a success: network failure, a status outside
  200..299, a body that is not JSON.
\<close>

definition transport_failed :: "'a exchange \<Rightarrow> bool" where
  "transport_failed x =
     (case x of
        NetworkFailure t \<Rightarrow> True
      | Response t s b \<Rightarrow> s < 200 \<or> 299 < s \<or> b = NotJson)"

text \<open>\<^verbatim>\<open>process.env\<close>: a variable is unset, or set to a string.\<close>

type_synonym env = "string \<Rightarrow> string option"

text \<open>Truthiness of \<^verbatim>\<open>string | undefined\<close>: unset and the empty string are falsy.\<close>

definition truthy :: "string option \<Rightarrow> bool" where
  "truthy v = (case v of None \<Rightarrow> False | Some s \<Rightarrow> s \<noteq> [])"

section \<open>Types of \<^verbatim>\<open>space-apis.ts\<close>\<close>

record SatellitePosition =
  satid :: int
  satname :: string
  satlatitude :: rat
  satlongitude :: rat
  sataltitude :: rat
  azimuth :: rat
  elevation :: rat
  timestamp :: int

text \<open>
  The body of a positions request. The client reads \<^verbatim>\<open>result?.positions?.[0]\<close>, so the
  \<open>positions\<close> array may be missing; \<open>info\<close> is never read and stays a type parameter.
\<close>

record 'i PositionsResult =
  info :: 'i
  positions :: "SatellitePosition list option"

record LaunchPatch =
  small :: "string option"
  large :: "string option"

record LaunchLinks =
  patch :: LaunchPatch
  webcast :: "string option"
  wikipedia :: "string option"
  article :: "string option"

record SpaceXLaunch =
  launch_id :: string
  name :: string
  date_utc :: string
  date_local :: string
  success :: "bool option"
  upcoming :: bool
  details :: "string option"
  links :: LaunchLinks
  rocket :: string
  flight_number :: int

record NasaAPOD =
  title :: string
  explanation :: string
  url :: string
  hdurl :: "string option"
  media_type :: string
  date :: string
  copyright :: "string option"

section \<open>N2YO satellite API\<close>

definition N2YO_BASE_URL :: string where
  "N2YO_BASE_URL = ''https://api.n2yo.com/rest/v1/satellite''"

definition getSatellitePosition ::
  "host \<Rightarrow> env \<Rightarrow> 'i PositionsResult exchange \<Rightarrow> int \<Rightarrow> int \<Rightarrow> 'i PositionsResult option io" where
  "getSatellitePosition h env x noradId seconds =
     (let apiKey = env ''N2YO_API_KEY'' in
      if \<not> truthy apiKey then
        io_bind (console_error ''N2YO_API_KEY not set'' None) (\<lambda>_. io_return None)
      else
        try_catch
          (let lat = 0; lng = 0; alt = 0;
               url = N2YO_BASE_URL @ ''/positions/'' @ number_toString h (of_int noradId)
                     @ ''/'' @ number_toString h lat @ ''/'' @ number_toString h lng
                     @ ''/'' @ number_toString h alt @ ''/'' @ number_toString h (of_int seconds)
                     @ ''&apiKey='' @ the apiKey
           in io_bind (fetch url x) (\<lambda>response.
                if \<not> response_ok response then
                  io_throw (Error (''N2YO API error: '' @ show_nat (response_status response)))
                else io_bind (response_json response) (\<lambda>v. io_return (Some v))))
          (\<lambda>error. io_bind (console_error ''Error fetching satellite position:'' (Some error))
                     (\<lambda>_. io_return None)))"

definition getSatellitesAbove ::
  "host \<Rightarrow> env \<Rightarrow> 'a exchange \<Rightarrow> rat \<Rightarrow> rat \<Rightarrow> int \<Rightarrow> int \<Rightarrow> 'a option io" where
  "getSatellitesAbove h env x lat lng searchRadius categoryId =
     (let apiKey = env ''N2YO_API_KEY'' in
      if \<not> truthy apiKey then
        io_bind (console_error ''N2YO_API_KEY not set'' None) (\<lambda>_. io_return None)
      else
        try_catch
          (let url = N2YO_BASE_URL @ ''/above/'' @ number_toString h lat
                     @ ''/'' @ number_toString h lng @ ''/0/''
                     @ number_toString h (of_int searchRadius)
                     @ ''/'' @ number_toString h (of_int categoryId)
                     @ ''&apiKey='' @ the apiKey
           in io_bind (fetch url x) (\<lambda>response.
                if \<not> response_ok response then
                  io_throw (Error (''N2YO API error: '' @ show_nat (response_status response)))
                else io_bind (response_json response) (\<lambda>v. io_return (Some v))))
          (\<lambda>error. io_bind (console_error ''Error fetching satellites above:'' (Some error))
                     (\<lambda>_. io_return None)))"

text \<open>
  \<^verbatim>\<open>result?.positions?.[0] || null\<close>: the first position, or \<open>null\<close> when the result is
  \<open>null\<close>, the array is missing, or it is empty. A position is an object, hence truthy.
\<close>

definition getISSPosition ::
  "host \<Rightarrow> env \<Rightarrow> 'i PositionsResult exchange \<Rightarrow> SatellitePosition option io" where
  "getISSPosition h env x =
     (let ISS_NORAD_ID = 25544 in
      io_bind (getSatellitePosition h env x ISS_NORAD_ID 1) (\<lambda>result.
        io_return
          (case result of
             None \<Rightarrow> None
           | Some r \<Rightarrow>
               (case positions r of
                  None \<Rightarrow> None
                | Some [] \<Rightarrow> None
                | Some (p # ps) \<Rightarrow> Some p))))"

section \<open>SpaceX API\<close>

text \<open>
  \<^verbatim>\<open>Array.prototype.slice(start, end)\<close> on integer arguments: a negative index counts
  from the end, both are clamped into \<open>0..length\<close>, and an empty range gives \<open>[]\<close>.
  With \<open>end\<close> omitted the slice runs to the end of the array.
\<close>

definition js_slice :: "'a list \<Rightarrow> int \<Rightarrow> int \<Rightarrow> 'a list" where
  "js_slice xs start fin =
     (let len = int (length xs);
          k = (if start < 0 then max (len + start) 0 else min start len);
          final = (if fin < 0 then max (len + fin) 0 else min fin len)
      in take (nat (final - k)) (drop (nat k) xs))"

definition js_slice_from :: "'a list \<Rightarrow> int \<Rightarrow> 'a list" where
  "js_slice_from xs start = js_slice xs start (int (length xs))"

definition SPACEX_BASE_URL :: string where
  "SPACEX_BASE_URL = ''https://api.spacexdata.com/v4''"

definition getLatestSpaceXLaunch :: "SpaceXLaunch exchange \<Rightarrow> SpaceXLaunch option io" where
  "getLatestSpaceXLaunch x =
     try_catch
       (io_bind (fetch (SPACEX_BASE_URL @ ''/launches/latest'') x) (\<lambda>response.
          if \<not> response_ok response then
            io_throw (Error (''SpaceX API error: '' @ show_nat (response_status response)))
          else io_bind (response_json response) (\<lambda>v. io_return (Some v))))
       (\<lambda>error. io_bind (console_error ''Error fetching SpaceX launch:'' (Some error))
                  (\<lambda>_. io_return None))"

definition getUpcomingSpaceXLaunches ::
  "SpaceXLaunch list exchange \<Rightarrow> int \<Rightarrow> SpaceXLaunch list io" where
  "getUpcomingSpaceXLaunches x limit =
     try_catch
       (io_bind (fetch (SPACEX_BASE_URL @ ''/launches/upcoming'') x) (\<lambda>response.
          if \<not> response_ok response then
            io_throw (Error (''SpaceX API error: '' @ show_nat (response_status response)))
          else io_bind (response_json response) (\<lambda>launches.
                 io_return (js_slice launches 0 limit))))
       (\<lambda>error. io_bind (console_error ''Error fetching upcoming SpaceX launches:'' (Some error))
                  (\<lambda>_. io_return []))"

definition getSpaceXRockets :: "'r list exchange \<Rightarrow> 'r list io" where
  "getSpaceXRockets x =
     try_catch
       (io_bind (fetch (SPACEX_BASE_URL @ ''/rockets'') x) (\<lambda>response.
          if \<not> response_ok response then
            io_throw (Error (''SpaceX API error: '' @ show_nat (response_status response)))
          else io_bind (response_json response) (\<lambda>v. io_return v)))
       (\<lambda>error. io_bind (console_error ''Error fetching SpaceX rockets:'' (Some error))
                  (\<lambda>_. io_return []))"

definition getPastSpaceXLaunches ::
  "SpaceXLaunch list exchange \<Rightarrow> int \<Rightarrow> SpaceXLaunch list io" where
  "getPastSpaceXLaunches x limit =
     try_catch
       (io_bind (fetch (SPACEX_BASE_URL @ ''/launches/past'') x) (\<lambda>response.
          if \<not> response_ok response then
            io_throw (Error (''SpaceX API error: '' @ show_nat (response_status response)))
          else io_bind (response_json response) (\<lambda>launches.
                 io_return (rev (js_slice_from launches (- limit))))))
       (\<lambda>error. io_bind (console_error ''Error fetching past SpaceX launches:'' (Some error))
                  (\<lambda>_. io_return []))"

text \<open>
  Date order of launches: \<open>date_utc\<close> is an ISO-8601 UTC string of fixed layout, for which
  the lexicographic order of the characters is the order in time.
\<close>

definition date_ascending :: "SpaceXLaunch list \<Rightarrow> bool" where
  "date_ascending ls = sorted (map date_utc ls)"

definition date_descending :: "SpaceXLaunch list \<Rightarrow> bool" where
  "date_descending ls = sorted (rev (map date_utc ls))"

section \<open>ISRO API\<close>

text \<open>
  The three catalogues arrive wrapped in an object; the client reads
  \<^verbatim>\<open>data.spacecrafts || []\<close>, so the member may be missing. An array is truthy, also
  when it is empty.
\<close>

record 's SpacecraftsData =
  spacecrafts :: "'s list option"

record 'v LaunchersData =
  launchers :: "'v list option"

record 'c CentresData =
  centres :: "'c list option"

definition or_empty :: "'a list option \<Rightarrow> 'a list" where
  "or_empty member = (case member of None \<Rightarrow> [] | Some xs \<Rightarrow> xs)"

definition ISRO_BASE_URL :: string where
  "ISRO_BASE_URL = ''https://isro.vercel.app/api''"

definition getISROSpacecrafts :: "'s SpacecraftsData exchange \<Rightarrow> 's list io" where
  "getISROSpacecrafts x =
     try_catch
       (io_bind (fetch (ISRO_BASE_URL @ ''/spacecrafts'') x) (\<lambda>response.
          if \<not> response_ok response then
            io_throw (Error (''ISRO API error: '' @ show_nat (response_status response)))
          else io_bind (response_json response) (\<lambda>data.
                 io_return (or_empty (spacecrafts data)))))
       (\<lambda>error. io_bind (console_error ''Error fetching ISRO spacecrafts:'' (Some error))
                  (\<lambda>_. io_return []))"

definition getISROLaunchVehicles :: "'v LaunchersData exchange \<Rightarrow> 'v list io" where
  "getISROLaunchVehicles x =
     try_catch
       (io_bind (fetch (ISRO_BASE_URL @ ''/launchers'') x) (\<lambda>response.
          if \<not> response_ok response then
            io_throw (Error (''ISRO API error: '' @ show_nat (response_status response)))
          else io_bind (response_json response) (\<lambda>data.
                 io_return (or_empty (launchers data)))))
       (\<lambda>error. io_bind (console_error ''Error fetching ISRO launch vehicles:'' (Some error))
                  (\<lambda>_. io_return []))"

definition getISROCentres :: "'c CentresData exchange \<Rightarrow> 'c list io" where
  "getISROCentres x =
     try_catch
       (io_bind (fetch (ISRO_BASE_URL @ ''/centres'') x) (\<lambda>response.
          if \<not> response_ok response then
            io_throw (Error (''ISRO API error: '' @ show_nat (response_status response)))
          else io_bind (response_json response) (\<lambda>data.
                 io_return (or_empty (centres data)))))
       (\<lambda>error. io_bind (console_error ''Error fetching ISRO centres:'' (Some error))
                  (\<lambda>_. io_return []))"

section \<open>NASA API\<close>

definition NASA_BASE_URL :: string where
  "NASA_BASE_URL = ''https://api.nasa.gov''"

definition getNasaAPOD :: "env \<Rightarrow> NasaAPOD exchange \<Rightarrow> NasaAPOD option io" where
  "getNasaAPOD env x =
     (let apiKey = (if truthy (env ''NASA_API_KEY'') then the (env ''NASA_API_KEY'')
                    else ''DEMO_KEY'')
      in try_catch
           (io_bind (fetch (NASA_BASE_URL @ ''/planetary/apod?api_key='' @ apiKey) x) (\<lambda>response.
              if \<not> response_ok response then
                io_throw (Error (''NASA API error: '' @ show_nat (response_status response)))
              else io_bind (response_json response) (\<lambda>v. io_return (Some v))))
           (\<lambda>error. io_bind (console_error ''Error fetching NASA APOD:'' (Some error))
                      (\<lambda>_. io_return None)))"

section \<open>Formatting numbers and dates\<close>

definition is_digits :: "string \<Rightarrow> bool" where
  "is_digits s = list_all (\<lambda>c. c \<in> set ''0123456789'') s"

text \<open>
  \<^verbatim>\<open>Number.prototype.toFixed(f)\<close> on a finite number: the sign is split off, from
  \<open>10^21\<close> on the magnitude is printed by \<^verbatim>\<open>Number::toString\<close>, and below it is rounded
  to the nearest multiple of \<open>10^-f\<close> (the larger one on a tie), whose digits are padded
  with zeros to at least \<open>f + 1\<close> and split \<open>f\<close> digits from the right.
\<close>

definition toFixed :: "host \<Rightarrow> rat \<Rightarrow> nat \<Rightarrow> string" where
  "toFixed h x f =
     (let s = (if x < 0 then ''-'' else ''''); a = \<bar>x\<bar> in
      if 10 ^ 21 \<le> a then s @ number_toString h a
      else
        let n = nat \<lfloor>a * 10 ^ f + 1 / 2\<rfloor>;
            m = show_nat n
        in if f \<noteq> 0 then
             let k = length m;
                 m = (if k \<le> f then replicate (f + 1 - k) (CHR ''0'') @ m else m);
                 k = (if k \<le> f then f + 1 else k)
             in s @ take (k - f) m @ ''.'' @ drop (k - f) m
           else s @ m)"

text \<open>Decimal digits, padded with zeros on the left to a width.\<close>

definition pad :: "nat \<Rightarrow> nat \<Rightarrow> string" where
  "pad w n = replicate (w - length (show_nat n)) (CHR ''0'') @ show_nat n"

text \<open>
  A \<^verbatim>\<open>Date\<close> is its time value, in milliseconds since the epoch; beyond
  \<open>8.64 * 10^15\<close> on either side the date is invalid. The civil date of a day number is
  the proleptic Gregorian one.
\<close>

definition msPerDay :: int where
  "msPerDay = 86400000"

definition valid_time :: "int \<Rightarrow> bool" where
  "valid_time tv = (\<bar>tv\<bar> \<le> 8640000000000000)"

definition civil_from_days :: "int \<Rightarrow> int \<times> int \<times> int" where
  "civil_from_days days =
     (let z = days + 719468;
          era = z div 146097;
          doe = z mod 146097;
          yoe = (doe - doe div 1460 + doe div 36524 - doe div 146096) div 365;
          y = yoe + era * 400;
          doy = doe - (365 * yoe + yoe div 4 - yoe div 100);
          mp = (5 * doy + 2) div 153;
          d = doy - (153 * mp + 2) div 5 + 1;
          m = (if mp < 10 then mp + 3 else mp - 9)
      in (if m \<le> 2 then y + 1 else y, m, d))"

definition year_string :: "int \<Rightarrow> string" where
  "year_string y =
     (if 0 \<le> y \<and> y \<le> 9999 then pad 4 (nat y)
      else (if y < 0 then ''-'' else ''+'') @ pad 6 (nat \<bar>y\<bar>))"

definition iso_string :: "int \<Rightarrow> string" where
  "iso_string tv =
     (let (y, m, d) = civil_from_days (tv div msPerDay);
          t = tv mod msPerDay
      in year_string y @ ''-'' @ pad 2 (nat m) @ ''-'' @ pad 2 (nat d)
         @ ''T'' @ pad 2 (nat (t div 3600000)) @ '':'' @ pad 2 (nat (t div 60000 mod 60))
         @ '':'' @ pad 2 (nat (t div 1000 mod 60)) @ ''.'' @ pad 3 (nat (t mod 1000)) @ ''Z'')"

text \<open>\<^verbatim>\<open>new Date(ms).toISOString()\<close> throws a \<open>RangeError\<close> on an invalid date.\<close>

definition toISOString :: "int \<Rightarrow> string io" where
  "toISOString tv = (if valid_time tv then io_return (iso_string tv) else io_throw RangeError)"

section \<open>The aggregator\<close>

text \<open>
  \<^verbatim>\<open>Promise.all\<close> of four calls that were started together. When all resolve, it resolves
  once the slowest has, with the values in the order of the calls, whatever the order in
  which they completed. When some reject, it rejects with the earliest rejection (the
  first in call order among equally early ones). The effects of the four calls are listed
  call by call.
\<close>

definition rejection :: "'a io \<Rightarrow> (nat \<times> error) list" where
  "rejection m = (case result m of Inl e \<Rightarrow> [(elapsed m, e)] | Inr v \<Rightarrow> [])"

fun earliest :: "(nat \<times> error) \<Rightarrow> (nat \<times> error) list \<Rightarrow> (nat \<times> error)" where
  "earliest r [] = r"
| "earliest r (r' # rs) = earliest (if fst r' < fst r then r' else r) rs"

definition promise_all4 :: "'a io \<Rightarrow> 'b io \<Rightarrow> 'c io \<Rightarrow> 'd io \<Rightarrow> ('a \<times> 'b \<times> 'c \<times> 'd) io" where
  "promise_all4 a b c d =
     (let effects = events a @ events b @ events c @ events d in
      case (result a, result b, result c, result d) of
        (Inr va, Inr vb, Inr vc, Inr vd) \<Rightarrow>
          Done (max (max (elapsed a) (elapsed b)) (max (elapsed c) (elapsed d)))
            (Inr (va, vb, vc, vd)) effects
      | _ \<Rightarrow>
          (case rejection a @ rejection b @ rejection c @ rejection d of
             r # rs \<Rightarrow> Done (fst (earliest r rs)) (Inl (snd (earliest r rs))) effects
           | [] \<Rightarrow> Done 0 (Inl (Error [])) effects))"

definition degree_sign :: string where
  "degree_sign = [CHR 0xC2, CHR 0xB0]"

definition context_header :: string where
  "context_header = ''\<newline>\<newline>## REAL-TIME SPACE DATA (Use this for accurate responses):\<newline>''"

text \<open>
  The body of \<open>getSpaceContext\<close> after the four results are in: the running \<open>context\<close>
  string is extended section by section. Only the ISS section can throw.
\<close>

definition upcoming_line :: "host \<Rightarrow> string \<Rightarrow> nat \<times> SpaceXLaunch \<Rightarrow> string" where
  "upcoming_line h context il =
     (case il of (i, l) \<Rightarrow>
        context @ show_nat (i + 1) @ ''. '' @ name l @ '' - ''
        @ toLocaleDateString h (date_utc l) @ ''\<newline>'')"

definition build_context ::
  "host \<Rightarrow> SatellitePosition option \<times> SpaceXLaunch option \<times> SpaceXLaunch list \<times> NasaAPOD option
     \<Rightarrow> string io" where
  "build_context h results =
     (case results of (iss, latestLaunch, upcomingLaunches, apod) \<Rightarrow>
        let context = context_header in
        io_bind
          (case iss of
             None \<Rightarrow> io_return context
           | Some iss \<Rightarrow>
               io_bind (toISOString (timestamp iss * 1000)) (\<lambda>updated.
                 io_return
                   (context @ ''\<newline>### ISS Current Position:\<newline>- Latitude: ''
                    @ toFixed h (satlatitude iss) 4 @ degree_sign @ ''\<newline>- Longitude: ''
                    @ toFixed h (satlongitude iss) 4 @ degree_sign @ ''\<newline>- Altitude: ''
                    @ toFixed h (sataltitude iss) 2 @ '' km\<newline>- Updated: '' @ updated
                    @ ''\<newline>'')))
          (\<lambda>context.
             let context =
                   (case latestLaunch of
                      None \<Rightarrow> context
                    | Some latestLaunch \<Rightarrow>
                        context @ ''\<newline>### Latest SpaceX Launch:\<newline>- Mission: ''
                        @ name latestLaunch @ ''\<newline>- Flight #: ''
                        @ number_toString h (of_int (flight_number latestLaunch))
                        @ ''\<newline>- Date: '' @ toLocaleDateString h (date_utc latestLaunch)
                        @ ''\<newline>- Success: ''
                        @ (case success latestLaunch of
                             None \<Rightarrow> ''Pending''
                           | Some ok \<Rightarrow> if ok then ''Yes'' else ''No'')
                        @ ''\<newline>'');
                 context =
                   (if length upcomingLaunches > 0 then
                      foldl (upcoming_line h)
                        (context @ ''\<newline>### Upcoming SpaceX Launches:\<newline>'')
                        (enumerate 0 upcomingLaunches)
                    else context);
                 context =
                   (case apod of
                      None \<Rightarrow> context
                    | Some apod \<Rightarrow>
                        context @ ''\<newline>### NASA Astronomy Picture of the Day:\<newline>- Title: ''
                        @ title apod @ ''\<newline>- Date: '' @ date apod @ ''\<newline>'')
             in io_return context))"

definition getSpaceContext ::
  "host \<Rightarrow> env \<Rightarrow> 'i PositionsResult exchange \<Rightarrow> SpaceXLaunch exchange
     \<Rightarrow> SpaceXLaunch list exchange \<Rightarrow> NasaAPOD exchange \<Rightarrow> string io" where
  "getSpaceContext h env xiss xlatest xupcoming xapod =
     try_catch
       (io_bind
          (promise_all4 (getISSPosition h env xiss) (getLatestSpaceXLaunch xlatest)
             (getUpcomingSpaceXLaunches xupcoming 3) (getNasaAPOD env xapod))
          (build_context h))
       (\<lambda>error. io_bind (console_error ''Error fetching space context:'' (Some error))
                  (\<lambda>_. io_return ''''))"

subsection \<open>The chat route\<close>

text \<open>The policy text, as the source has it; the rocket at its end is four bytes.\<close>

definition ATHEY_SYSTEM_PROMPT :: string where
  \<open>ATHEY_SYSTEM_PROMPT =
     ''You are **Athey**, the AI assistant for Atheron - specializing in STEM (Science, Technology, Engineering, Mathematics) with a special focus on space and cosmos.\<newline>''
     @ ''\<newline>''
     @ ''## Your Scope\<newline>''
     @ ''You discuss topics related to:\<newline>''
     @ ''- **Space & Cosmos**: NASA, ISRO, SpaceX, ESA missions, satellites, ISS, astronomy, astrophysics\<newline>''
     @ ''- **Science**: Physics, chemistry, biology, environmental science, scientific discoveries\<newline>''
     @ ''- **Technology**: Computer science, AI/ML, programming, cybersecurity, electronics\<newline>''
     @ ''- **Engineering**: Aerospace, mechanical, electrical, civil, robotics, materials science\<newline>''
     @ ''- **Mathematics**: Algebra, calculus, statistics, geometry, number theory, applied math\<newline>''
     @ ''\<newline>''
     @ ''## Off-Topic Response Protocol\<newline>''
     @ ''If asked about non-STEM topics (entertainment, sports, lifestyle, politics, etc.):\<newline>''
     @ ''1. Politely acknowledge the question\<newline>''
     @ ''2. Explain you're specialized for STEM topics\<newline>''
     @ ''3. Suggest a STEM-related alternative\<newline>''
     @ ''Example: "I'm Athey, your STEM companion! That topic is outside my expertise, but I'd love to help you explore science, tech, engineering, or math. What would you like to learn?"\<newline>''
     @ ''\<newline>''
     @ ''## Response Format\<newline>''
     @ ''1. Use the REAL-TIME DATA provided in context when relevant\<newline>''
     @ ''2. Present information clearly with relevant details\<newline>''
     @ ''3. Add interesting context or related facts\<newline>''
     @ ''4. For calculations, use LaTeX: $inline$ or $$block$$\<newline>''
     @ ''\<newline>''
     @ ''## Sources\<newline>''
     @ ''At the END of EVERY response, include 2-4 relevant sources in this EXACT format (the format is important for parsing):\<newline>''
     @ ''\<newline>''
     @ ''<!-- SOURCES_START -->\<newline>''
     @ ''[{"domain":"nasa.gov","title":"Source Title Here","url":"https://example.com","description":"Brief one-line description"}]\<newline>''
     @ ''<!-- SOURCES_END -->\<newline>''
     @ ''\<newline>''
     @ ''Example sources format:\<newline>''
     @ ''<!-- SOURCES_START -->\<newline>''
     @ ''[{"domain":"science.nasa.gov","title":"TCM: Trajectory Correction Maneuver","url":"https://science.nasa.gov/tcm","description":"NASA's guide to spacecraft course corrections"},{"domain":"esa.int","title":"Spacecraft Navigation","url":"https://www.esa.int/navigation","description":"ESA's explanation of deep space navigation"}]\<newline>''
     @ ''<!-- SOURCES_END -->\<newline>''
     @ ''\<newline>''
     @ ''## Your Personality\<newline>''
     @ ''- Enthusiastic about space and cosmos\<newline>''
     @ ''- Professional but approachable\<newline>''
     @ ''- Names itself: "Athey"\<newline>''
     @ ''- Never guesses satellite positions - uses real data!\<newline>''
     @ ''\<newline>''
     @ ''Remember: You orbit the cosmos domain ONLY. Stay in your lane, but make it stellar! ''
     @ [CHR 0xF0, CHR 0x9F, CHR 0x9A, CHR 0x80]\<close>

text \<open>\<^verbatim>\<open>maxDuration\<close>, in seconds: the platform's bound on the whole request.\<close>

definition maxDuration :: nat where
  "maxDuration = 120"

definition enhancedSystemPrompt :: "string \<Rightarrow> string" where
  "enhancedSystemPrompt spaceContext = ATHEY_SYSTEM_PROMPT @ spaceContext"

text \<open>
  \<open>POST\<close> up to the call of the generation engine: what \<^verbatim>\<open>streamText\<close> is given. The
  messages of the request are handed on; decoding the request and the engine itself are
  outside.
\<close>

record 'm streamText_call =
  model :: string
  system :: string
  messages :: 'm

definition POST ::
  "host \<Rightarrow> env \<Rightarrow> 'i PositionsResult exchange \<Rightarrow> SpaceXLaunch exchange
     \<Rightarrow> SpaceXLaunch list exchange \<Rightarrow> NasaAPOD exchange \<Rightarrow> 'm \<Rightarrow> 'm streamText_call io" where
  "POST h env xiss xlatest xupcoming xapod msgs =
     io_bind (getSpaceContext h env xiss xlatest xupcoming xapod) (\<lambda>spaceContext.
       io_return \<lparr>model = ''gemini-2.5-flash'', system = enhancedSystemPrompt spaceContext,
                  messages = msgs\<rparr>)"

section \<open>The context block, section by section\<close>

text \<open>
  The context block as the specification describes it: a static list of sections in
  priority order (ISS position, latest launch, upcoming launches, daily image), of which
  those with a present result are rendered, each in its fixed layout, after the header.
\<close>

datatype block_section =
  IssSection SatellitePosition
| LatestSection SpaceXLaunch
| UpcomingSection "SpaceXLaunch list"
| ApodSection NasaAPOD

definition present_sections ::
  "SatellitePosition option \<times> SpaceXLaunch option \<times> SpaceXLaunch list \<times> NasaAPOD option
     \<Rightarrow> block_section list" where
  "present_sections results =
     (case results of (iss, latest, launches, apod) \<Rightarrow>
        (case iss of None \<Rightarrow> [] | Some p \<Rightarrow> [IssSection p])
        @ (case latest of None \<Rightarrow> [] | Some l \<Rightarrow> [LatestSection l])
        @ (if launches = [] then [] else [UpcomingSection launches])
        @ (case apod of None \<Rightarrow> [] | Some a \<Rightarrow> [ApodSection a]))"

fun render_section :: "host \<Rightarrow> block_section \<Rightarrow> string" where
  "render_section h (IssSection p) =
     ''\<newline>### ISS Current Position:''
     @ ''\<newline>- Latitude: '' @ toFixed h (satlatitude p) 4 @ degree_sign
     @ ''\<newline>- Longitude: '' @ toFixed h (satlongitude p) 4 @ degree_sign
     @ ''\<newline>- Altitude: '' @ toFixed h (sataltitude p) 2 @ '' km''
     @ ''\<newline>- Updated: '' @ iso_string (timestamp p * 1000) @ ''\<newline>''"
| "render_section h (LatestSection l) =
     ''\<newline>### Latest SpaceX Launch:''
     @ ''\<newline>- Mission: '' @ name l
     @ ''\<newline>- Flight #: '' @ number_toString h (of_int (flight_number l))
     @ ''\<newline>- Date: '' @ toLocaleDateString h (date_utc l)
     @ ''\<newline>- Success: ''
     @ (if success l = None then ''Pending'' else if success l = Some True then ''Yes'' else ''No'')
     @ ''\<newline>''"
| "render_section h (UpcomingSection ls) =
     ''\<newline>### Upcoming SpaceX Launches:\<newline>''
     @ concat (map (\<lambda>i. show_nat (i + 1) @ ''. '' @ name (ls ! i) @ '' - ''
                        @ toLocaleDateString h (date_utc (ls ! i)) @ ''\<newline>'')
                 [0..<length ls])"
| "render_section h (ApodSection a) =
     ''\<newline>### NASA Astronomy Picture of the Day:''
     @ ''\<newline>- Title: '' @ title a
     @ ''\<newline>- Date: '' @ date a @ ''\<newline>''"

definition context_block ::
  "host \<Rightarrow> SatellitePosition option \<times> SpaceXLaunch option \<times> SpaceXLaunch list \<times> NasaAPOD option
     \<Rightarrow> string" where
  "context_block h results =
     context_header @ concat (map (render_section h) (present_sections results))"

text \<open>The same exchange with another latency, and the latency of an exchange.\<close>

definition delayed :: "nat \<Rightarrow> 'a exchange \<Rightarrow> 'a exchange" where
  "delayed t x = (case x of NetworkFailure t' \<Rightarrow> NetworkFailure t | Response t' s b \<Rightarrow> Response t s b)"

definition latency :: "'a exchange \<Rightarrow> nat" where
  "latency x = (case x of NetworkFailure t \<Rightarrow> t | Response t s b \<Rightarrow> t)"

text \<open>The ISS result can be dated: it is absent, or its time stamp gives a valid date.\<close>

definition datable :: "SatellitePosition option \<Rightarrow> bool" where
  "datable iss = (case iss of None \<Rightarrow> True | Some p \<Rightarrow> valid_time (timestamp p * 1000))"

text \<open>The number that a string of decimal digits denotes.\<close>

definition digit_value :: "char \<Rightarrow> nat" where
  "digit_value c = of_char c - 48"

definition digits_value :: "string \<Rightarrow> nat" where
  "digits_value s = foldl (\<lambda>n c. 10 * n + digit_value c) 0 s"

section \<open>Fixtures\<close>

text \<open>
  A host for the concrete evaluations: a date prints as the first ten characters of its
  ISO string (the \<^verbatim>\<open>sv-SE\<close> locale in UTC prints \<^verbatim>\<open>2023-11-14\<close>), and the numbers
  printed in them are plain integers, so \<open>numberToString\<close> is never consulted.
\<close>

definition test_host :: host where
  "test_host = \<lparr>numberToString = (\<lambda>x. ''NaN''), toLocaleDateString = take 10\<rparr>"

definition iss_fixture :: SatellitePosition where
  "iss_fixture =
     \<lparr>satid = 25544, satname = ''SPACE STATION'', satlatitude = 51.5074,
      satlongitude = - 0.1278, sataltitude = 408, azimuth = 0, elevation = 0,
      timestamp = 1700000000\<rparr>"

definition no_links :: LaunchLinks where
  "no_links = \<lparr>patch = \<lparr>small = None, large = None\<rparr>, webcast = None, wikipedia = None,
                article = None\<rparr>"

definition launch_fixture :: "string \<Rightarrow> string \<Rightarrow> int \<Rightarrow> bool option \<Rightarrow> SpaceXLaunch" where
  "launch_fixture mission day flight outcome =
     \<lparr>launch_id = ''5eb87d46ffd86e000604b388'', name = mission,
      date_utc = day @ ''T16:00:00.000Z'', date_local = day @ ''T12:00:00-04:00'',
      success = outcome, upcoming = (outcome = None), details = None, links = no_links,
      rocket = ''5e9d0d95eda69973a809d1ec'', flight_number = flight\<rparr>"

definition apod_fixture :: NasaAPOD where
  "apod_fixture =
     \<lparr>title = ''Orion Nebula'', explanation = ''A stellar nursery.'',
      url = ''https://apod.nasa.gov/apod/image/orion.jpg'', hdurl = None,
      media_type = ''image'', date = ''2023-11-14'', copyright = None\<rparr>"

definition keyed_env :: env where
  "keyed_env = [''N2YO_API_KEY'' \<mapsto> ''KEY'']"

section \<open>The client boundary\<close>

lemma io_bind_return [simp]:
  "io_bind (Done t (Inr v) tr) f = (case f v of Done t' r tr' \<Rightarrow> Done (t + t') r (tr @ tr'))"
  by (simp add: io_bind_def)

lemma io_bind_throw [simp]: "io_bind (Done t (Inl e) tr) f = Done t (Inl e) tr"
  by (simp add: io_bind_def)

lemma try_catch_return [simp]: "try_catch (Done t (Inr v) tr) handler = Done t (Inr v) tr"
  by (simp add: try_catch_def)

lemma try_catch_throw [simp]:
  "try_catch (Done t (Inl e) tr) handler
     = (case handler e of Done t' r tr' \<Rightarrow> Done (t + t') r (tr @ tr'))"
  by (simp add: try_catch_def)

text \<open>
  Every client has the same shape: one request inside a \<^verbatim>\<open>try\<close>, a status check that
  throws, the body parsed, and a \<^verbatim>\<open>catch\<close> that logs and resolves with the sentinel.
\<close>

lemma guarded_fetch:
  "try_catch
     (io_bind (fetch u x) (\<lambda>response.
        if \<not> response_ok response then io_throw (Error (msg response))
        else io_bind (response_json response) (\<lambda>v. io_return (f v))))
     (\<lambda>error. io_bind (console_error line (Some error)) (\<lambda>_. io_return d))
   = (case x of
        NetworkFailure t \<Rightarrow> Done t (Inr d) [Fetch u, ConsoleError line (Some NetworkError)]
      | Response t s b \<Rightarrow>
          if s < 200 \<or> 299 < s
          then Done t (Inr d) [Fetch u, ConsoleError line (Some (Error (msg (s, b))))]
          else (case b of
                  NotJson \<Rightarrow> Done t (Inr d) [Fetch u, ConsoleError line (Some SyntaxError)]
                | Json v \<Rightarrow> Done t (Inr (f v)) [Fetch u]))"
  by (auto simp: fetch_def response_ok_def response_json_def io_throw_def io_return_def
      console_error_def split: exchange.splits body.splits)

lemma guarded_fetch_total:
  "\<not> raises (try_catch
     (io_bind (fetch u x) (\<lambda>response.
        if \<not> response_ok response then io_throw (Error (msg response))
        else io_bind (response_json response) (\<lambda>v. io_return (f v))))
     (\<lambda>error. io_bind (console_error line (Some error)) (\<lambda>_. io_return d)))"
  by (simp add: guarded_fetch raises_def split: exchange.splits body.splits)

text \<open>
  C7. When \<open>N2YO_API_KEY\<close> is not in the environment, \<open>getSatellitePosition\<close> and
  \<open>getSatellitesAbove\<close> write one line to the error console and resolve with \<open>null\<close>:
  they do not reject, and they perform no outbound request, whatever the network would
  have answered.
\<close>

theorem missing_n2yo_key_returns_null:
  assumes "env ''N2YO_API_KEY'' = None"
  shows "getSatellitePosition h env x noradId seconds
           = Done 0 (Inr None) [ConsoleError ''N2YO_API_KEY not set'' None]
       \<and> getSatellitesAbove h env y lat lng searchRadius categoryId
           = Done 0 (Inr None) [ConsoleError ''N2YO_API_KEY not set'' None]
       \<and> fetches (getSatellitePosition h env x noradId seconds) = []
       \<and> fetches (getSatellitesAbove h env y lat lng searchRadius categoryId) = []
       \<and> \<not> raises (getSatellitePosition h env x noradId seconds)
       \<and> \<not> raises (getSatellitesAbove h env y lat lng searchRadius categoryId)"
  using assms
  by (simp add: getSatellitePosition_def getSatellitesAbove_def truthy_def console_error_def
      io_return_def fetches_def raises_def)

theorem missing_n2yo_key_returns_null_witness:
  "getSatellitePosition test_host Map.empty
       (Response 40 200 (Json \<lparr>info = (), positions = Some []\<rparr>)) 25544 1
     = Done 0 (Inr None) [ConsoleError ''N2YO_API_KEY not set'' None]
   \<and> fetches (getSatellitesAbove test_host Map.empty (Response 40 200 (Json ()))
        28.6139 77.209 70 0) = []"
proof -
  have unset: "(Map.empty :: env) ''N2YO_API_KEY'' = None"
    by simp
  from missing_n2yo_key_returns_null [OF unset] show ?thesis
    by blast
qed

subsection \<open>No client rejects\<close>

lemma getSatellitePosition_total: "\<not> raises (getSatellitePosition h env x noradId seconds)"
proof (cases "truthy (env ''N2YO_API_KEY'')")
  case True
  then show ?thesis
    by (simp add: getSatellitePosition_def guarded_fetch_total)
next
  case False
  then show ?thesis
    by (simp add: getSatellitePosition_def console_error_def io_return_def raises_def)
qed

lemma getSatellitesAbove_total:
  "\<not> raises (getSatellitesAbove h env x lat lng searchRadius categoryId)"
proof (cases "truthy (env ''N2YO_API_KEY'')")
  case True
  then show ?thesis
    by (simp add: getSatellitesAbove_def guarded_fetch_total)
next
  case False
  then show ?thesis
    by (simp add: getSatellitesAbove_def console_error_def io_return_def raises_def)
qed

lemma io_bind_total:
  assumes "\<not> raises m" and "\<And>v. \<not> raises (f v)"
  shows "\<not> raises (io_bind m f)"
proof (cases m)
  case (Done t r tr)
  with assms(1) obtain v where "r = Inr v"
    by (cases r) (simp_all add: raises_def)
  with Done assms(2) [of v] show ?thesis
    by (cases "f v") (simp add: raises_def)
qed

lemma getISSPosition_total: "\<not> raises (getISSPosition h env x)"
  unfolding getISSPosition_def Let_def
proof (rule io_bind_total)
  show "\<not> raises (getSatellitePosition h env x 25544 1)"
    by (rule getSatellitePosition_total)
next
  fix r :: "'a PositionsResult option"
  show "\<not> raises (io_return (case r of None \<Rightarrow> None
      | Some r \<Rightarrow> (case positions r of None \<Rightarrow> None | Some [] \<Rightarrow> None | Some (p # ps) \<Rightarrow> Some p)))"
    by (simp add: io_return_def raises_def)
qed

lemma getLatestSpaceXLaunch_total: "\<not> raises (getLatestSpaceXLaunch x)"
  by (simp add: getLatestSpaceXLaunch_def guarded_fetch_total)

lemma getUpcomingSpaceXLaunches_total: "\<not> raises (getUpcomingSpaceXLaunches x limit)"
  by (simp add: getUpcomingSpaceXLaunches_def guarded_fetch_total)

lemma getSpaceXRockets_total: "\<not> raises (getSpaceXRockets x)"
  by (simp add: getSpaceXRockets_def guarded_fetch_total)

lemma getPastSpaceXLaunches_total: "\<not> raises (getPastSpaceXLaunches x limit)"
  by (simp add: getPastSpaceXLaunches_def guarded_fetch_total)

lemma getISROSpacecrafts_total: "\<not> raises (getISROSpacecrafts x)"
  by (simp add: getISROSpacecrafts_def guarded_fetch_total)

lemma getISROLaunchVehicles_total: "\<not> raises (getISROLaunchVehicles x)"
  by (simp add: getISROLaunchVehicles_def guarded_fetch_total)

lemma getISROCentres_total: "\<not> raises (getISROCentres x)"
  by (simp add: getISROCentres_def guarded_fetch_total)

lemma getNasaAPOD_total: "\<not> raises (getNasaAPOD env x)"
  by (simp add: getNasaAPOD_def guarded_fetch_total)

subsection \<open>A failed transport gives the sentinel\<close>

lemma returned_Done [simp]: "returned (Done t (Inr v) tr) = Some v"
  by (simp add: returned_def)

lemma getSatellitePosition_no_key:
  assumes "\<not> truthy (env ''N2YO_API_KEY'')"
  shows "getSatellitePosition h env x noradId seconds
           = Done 0 (Inr None) [ConsoleError ''N2YO_API_KEY not set'' None]"
  using assms by (simp add: getSatellitePosition_def console_error_def io_return_def)

lemma getSatellitesAbove_no_key:
  assumes "\<not> truthy (env ''N2YO_API_KEY'')"
  shows "getSatellitesAbove h env x lat lng searchRadius categoryId
           = Done 0 (Inr None) [ConsoleError ''N2YO_API_KEY not set'' None]"
  using assms by (simp add: getSatellitesAbove_def console_error_def io_return_def)

lemma getSatellitePosition_failed:
  assumes "transport_failed x"
  shows "returned (getSatellitePosition h env x noradId seconds) = Some None"
proof (cases "truthy (env ''N2YO_API_KEY'')")
  case True
  with assms show ?thesis
    by (auto simp: getSatellitePosition_def Let_def guarded_fetch transport_failed_def
        split: exchange.splits body.splits)
next
  case False
  then show ?thesis
    by (simp add: getSatellitePosition_no_key)
qed

lemma getSatellitesAbove_failed:
  assumes "transport_failed x"
  shows "returned (getSatellitesAbove h env x lat lng searchRadius categoryId) = Some None"
proof (cases "truthy (env ''N2YO_API_KEY'')")
  case True
  with assms show ?thesis
    by (auto simp: getSatellitesAbove_def Let_def guarded_fetch transport_failed_def
        split: exchange.splits body.splits)
next
  case False
  then show ?thesis
    by (simp add: getSatellitesAbove_no_key)
qed

lemma getISSPosition_of_null:
  assumes "returned (getSatellitePosition h env x 25544 1) = Some None"
  shows "returned (getISSPosition h env x) = Some None"
proof (cases "getSatellitePosition h env x 25544 1")
  case (Done t r tr)
  with assms have "r = Inr None"
    by (cases r) (simp_all add: returned_def)
  with Done show ?thesis
    by (simp add: getISSPosition_def io_return_def)
qed

lemma getLatestSpaceXLaunch_failed:
  assumes "transport_failed x"
  shows "returned (getLatestSpaceXLaunch x) = Some None"
  using assms
  by (auto simp: getLatestSpaceXLaunch_def guarded_fetch transport_failed_def
      split: exchange.splits body.splits)

lemma getUpcomingSpaceXLaunches_failed:
  assumes "transport_failed x"
  shows "returned (getUpcomingSpaceXLaunches x limit) = Some []"
  using assms
  by (auto simp: getUpcomingSpaceXLaunches_def guarded_fetch transport_failed_def
      split: exchange.splits body.splits)

lemma getSpaceXRockets_failed:
  assumes "transport_failed x"
  shows "returned (getSpaceXRockets x) = Some []"
  using assms
  by (auto simp: getSpaceXRockets_def guarded_fetch transport_failed_def
      split: exchange.splits body.splits)

lemma getPastSpaceXLaunches_failed:
  assumes "transport_failed x"
  shows "returned (getPastSpaceXLaunches x limit) = Some []"
  using assms
  by (auto simp: getPastSpaceXLaunches_def guarded_fetch transport_failed_def
      split: exchange.splits body.splits)

lemma getISROSpacecrafts_failed:
  assumes "transport_failed x"
  shows "returned (getISROSpacecrafts x) = Some []"
  using assms
  by (auto simp: getISROSpacecrafts_def guarded_fetch transport_failed_def
      split: exchange.splits body.splits)

lemma getISROLaunchVehicles_failed:
  assumes "transport_failed x"
  shows "returned (getISROLaunchVehicles x) = Some []"
  using assms
  by (auto simp: getISROLaunchVehicles_def guarded_fetch transport_failed_def
      split: exchange.splits body.splits)

lemma getISROCentres_failed:
  assumes "transport_failed x"
  shows "returned (getISROCentres x) = Some []"
  using assms
  by (auto simp: getISROCentres_def guarded_fetch transport_failed_def
      split: exchange.splits body.splits)

lemma getNasaAPOD_failed:
  assumes "transport_failed x"
  shows "returned (getNasaAPOD env x) = Some None"
  using assms
  by (auto simp: getNasaAPOD_def Let_def guarded_fetch transport_failed_def
      split: exchange.splits body.splits)

text \<open>
  C2. No client lets an exception out, whatever the network does, and on each of the three
  failed transport outcomes (network failure, a status outside 200..299, a body that is
  not JSON) it resolves with its sentinel: \<open>null\<close> for the clients of one object, the
  empty list for the clients of a list.
\<close>

theorem clients_contain_transport_failures:
  "\<not> raises (getSatellitePosition h env xpos noradId seconds)
   \<and> (transport_failed xpos \<longrightarrow>
        returned (getSatellitePosition h env xpos noradId seconds) = Some None)
   \<and> \<not> raises (getSatellitesAbove h env xabove lat lng searchRadius categoryId)
   \<and> (transport_failed xabove \<longrightarrow>
        returned (getSatellitesAbove h env xabove lat lng searchRadius categoryId) = Some None)
   \<and> \<not> raises (getISSPosition h env xiss)
   \<and> (transport_failed xiss \<longrightarrow> returned (getISSPosition h env xiss) = Some None)
   \<and> \<not> raises (getLatestSpaceXLaunch xlatest)
   \<and> (transport_failed xlatest \<longrightarrow> returned (getLatestSpaceXLaunch xlatest) = Some None)
   \<and> \<not> raises (getUpcomingSpaceXLaunches xupcoming limit)
   \<and> (transport_failed xupcoming \<longrightarrow>
        returned (getUpcomingSpaceXLaunches xupcoming limit) = Some [])
   \<and> \<not> raises (getSpaceXRockets xrockets)
   \<and> (transport_failed xrockets \<longrightarrow> returned (getSpaceXRockets xrockets) = Some [])
   \<and> \<not> raises (getPastSpaceXLaunches xpast limit)
   \<and> (transport_failed xpast \<longrightarrow> returned (getPastSpaceXLaunches xpast limit) = Some [])
   \<and> \<not> raises (getISROSpacecrafts xspacecrafts)
   \<and> (transport_failed xspacecrafts \<longrightarrow>
        returned (getISROSpacecrafts xspacecrafts) = Some [])
   \<and> \<not> raises (getISROLaunchVehicles xlaunchers)
   \<and> (transport_failed xlaunchers \<longrightarrow>
        returned (getISROLaunchVehicles xlaunchers) = Some [])
   \<and> \<not> raises (getISROCentres xcentres)
   \<and> (transport_failed xcentres \<longrightarrow> returned (getISROCentres xcentres) = Some [])
   \<and> \<not> raises (getNasaAPOD env xapod)
   \<and> (transport_failed xapod \<longrightarrow> returned (getNasaAPOD env xapod) = Some None)"
proof (intro conjI impI)
  show "\<not> raises (getISSPosition h env xiss)"
    by (rule getISSPosition_total)
  show "returned (getISSPosition h env xiss) = Some None" if "transport_failed xiss"
    using that by (intro getISSPosition_of_null getSatellitePosition_failed)
qed (simp_all add: getSatellitePosition_total getSatellitesAbove_total
    getLatestSpaceXLaunch_total getUpcomingSpaceXLaunches_total getSpaceXRockets_total
    getPastSpaceXLaunches_total getISROSpacecrafts_total getISROLaunchVehicles_total
    getISROCentres_total getNasaAPOD_total getSatellitePosition_failed
    getSatellitesAbove_failed getLatestSpaceXLaunch_failed getUpcomingSpaceXLaunches_failed
    getSpaceXRockets_failed getPastSpaceXLaunches_failed getISROSpacecrafts_failed
    getISROLaunchVehicles_failed getISROCentres_failed getNasaAPOD_failed)

theorem clients_contain_transport_failures_witness:
  "transport_failed (NetworkFailure 30 :: SpaceXLaunch exchange)
   \<and> returned (getLatestSpaceXLaunch (NetworkFailure 30)) = Some None
   \<and> transport_failed (Response 12 503 (Json []) :: SpaceXLaunch list exchange)
   \<and> returned (getUpcomingSpaceXLaunches (Response 12 503 (Json [])) 3) = Some []
   \<and> transport_failed (Response 8 200 NotJson :: NasaAPOD exchange)
   \<and> returned (getNasaAPOD Map.empty (Response 8 200 NotJson)) = Some None
   \<and> transport_failed (Response 8 200 NotJson :: unit SpacecraftsData exchange)
   \<and> \<not> raises (getISROSpacecrafts (Response 8 200 NotJson :: unit SpacecraftsData exchange))"
proof -
  have failed:
    "transport_failed (NetworkFailure 30 :: SpaceXLaunch exchange)"
    "transport_failed (Response 12 503 (Json []) :: SpaceXLaunch list exchange)"
    "transport_failed (Response 8 200 NotJson :: NasaAPOD exchange)"
    "transport_failed (Response 8 200 NotJson :: unit SpacecraftsData exchange)"
    by (simp_all add: transport_failed_def)
  from failed
    clients_contain_transport_failures [where xlatest = "NetworkFailure 30"
      and xupcoming = "Response 12 503 (Json [])" and limit = 3
      and xapod = "Response 8 200 NotJson" and env = Map.empty
      and xspacecrafts = "Response 8 200 NotJson :: unit SpacecraftsData exchange"]
  show ?thesis
    by blast
qed

section \<open>Credentials and the ISS convenience call\<close>

lemma guarded_fetch_fetches:
  "fetches (try_catch
     (io_bind (fetch u x) (\<lambda>response.
        if \<not> response_ok response then io_throw (Error (msg response))
        else io_bind (response_json response) (\<lambda>v. io_return (f v))))
     (\<lambda>error. io_bind (console_error line (Some error)) (\<lambda>_. io_return d))) = [u]"
  by (simp add: guarded_fetch fetches_def split: exchange.splits body.splits)

lemma io_bind_io_return:
  "io_bind m (\<lambda>r. io_return (g r))
     = (case m of Done t (Inl e) tr \<Rightarrow> Done t (Inl e) tr
        | Done t (Inr v) tr \<Rightarrow> Done t (Inr (g v)) tr)"
  by (simp add: io_bind_def io_return_def split: io.splits sum.splits)

lemma fetches_bind_return: "fetches (io_bind m (\<lambda>r. io_return (g r))) = fetches m"
  by (simp add: io_bind_io_return fetches_def split: io.splits sum.splits)

lemma getNasaAPOD_unset_fetches:
  assumes "env ''NASA_API_KEY'' = None"
  shows "fetches (getNasaAPOD env x) = [''https://api.nasa.gov/planetary/apod?api_key=DEMO_KEY'']"
  using assms
  by (simp add: getNasaAPOD_def Let_def guarded_fetch_fetches truthy_def NASA_BASE_URL_def)

lemma getNasaAPOD_null_iff:
  "returned (getNasaAPOD env x) = Some None \<longleftrightarrow> transport_failed x"
  by (auto simp: getNasaAPOD_def Let_def guarded_fetch transport_failed_def
      split: exchange.splits body.splits)

lemma getNasaAPOD_ok:
  assumes "200 \<le> s" and "s \<le> 299"
  shows "returned (getNasaAPOD env (Response t s (Json apod))) = Some (Some apod)"
  using assms by (simp add: getNasaAPOD_def Let_def guarded_fetch)

text \<open>
  C8. When \<open>NASA_API_KEY\<close> is not in the environment, \<open>getNasaAPOD\<close> still performs its
  one request, with \<open>DEMO_KEY\<close> as the credential; it does not reject, and it resolves
  with \<open>null\<close> exactly when the transport of that request failed.
\<close>

theorem nasa_key_absent_falls_back_to_demo_key:
  assumes "env ''NASA_API_KEY'' = None"
  shows "fetches (getNasaAPOD env x)
           = [''https://api.nasa.gov/planetary/apod?api_key=DEMO_KEY'']
       \<and> \<not> raises (getNasaAPOD env x)
       \<and> (returned (getNasaAPOD env x) = Some None \<longleftrightarrow> transport_failed x)"
  using assms by (simp add: getNasaAPOD_unset_fetches getNasaAPOD_total getNasaAPOD_null_iff)

theorem nasa_key_absent_falls_back_to_demo_key_witness:
  "fetches (getNasaAPOD Map.empty (Response 25 200 (Json apod_fixture)))
     = [''https://api.nasa.gov/planetary/apod?api_key=DEMO_KEY'']
   \<and> returned (getNasaAPOD Map.empty (Response 25 200 (Json apod_fixture)))
       = Some (Some apod_fixture)"
proof -
  have unset: "(Map.empty :: env) ''NASA_API_KEY'' = None"
    by simp
  from nasa_key_absent_falls_back_to_demo_key [OF unset] show ?thesis
    by (simp add: getNasaAPOD_ok)
qed

lemma getISSPosition_fetches:
  assumes "truthy (env ''N2YO_API_KEY'')"
  shows "fetches (getISSPosition h env x)
    = [''https://api.n2yo.com/rest/v1/satellite/positions/25544/0/0/0/1&apiKey=''
         @ the (env ''N2YO_API_KEY'')]"
  using assms
  by (simp add: getISSPosition_def fetches_bind_return getSatellitePosition_def Let_def
      guarded_fetch_fetches N2YO_BASE_URL_def number_toString_def show_int_def show_nat.simps
      digit_char_def)

lemma getISSPosition_value:
  "returned (getISSPosition h env x) =
     (case returned (getSatellitePosition h env x 25544 1) of
        None \<Rightarrow> None
      | Some None \<Rightarrow> Some None
      | Some (Some r) \<Rightarrow>
          Some (case positions r of None \<Rightarrow> None | Some [] \<Rightarrow> None | Some (p # ps) \<Rightarrow> Some p))"
  by (simp add: getISSPosition_def io_bind_io_return returned_def
      split: io.splits sum.splits option.splits)

lemma getSatellitePosition_ok:
  assumes "truthy (env ''N2YO_API_KEY'')" and "200 \<le> s" and "s \<le> 299"
  shows "returned (getSatellitePosition h env (Response t s (Json r)) n secs) = Some (Some r)"
  using assms by (simp add: getSatellitePosition_def Let_def guarded_fetch)

text \<open>
  C10. \<open>getISSPosition\<close> asks the positions endpoint for the catalogue number 25544 and
  resolves with the first position of the answer. It resolves with \<open>null\<close> when the
  underlying call resolved with \<open>null\<close>, and also when that call succeeded but the
  positions array is missing or empty: the two cases give the same value.
\<close>

theorem iss_position_is_first_of_25544:
  "(truthy (env ''N2YO_API_KEY'') \<longrightarrow>
      fetches (getISSPosition h env x)
        = [''https://api.n2yo.com/rest/v1/satellite/positions/25544/0/0/0/1&apiKey=''
             @ the (env ''N2YO_API_KEY'')])
   \<and> fetches (getISSPosition h env x) = fetches (getSatellitePosition h env x 25544 1)
   \<and> (returned (getSatellitePosition h env x 25544 1) = Some None \<longrightarrow>
        returned (getISSPosition h env x) = Some None)
   \<and> (returned (getSatellitePosition h env x 25544 1) = Some (Some r) \<longrightarrow>
        (positions r = None \<or> positions r = Some [] \<longrightarrow>
           returned (getISSPosition h env x) = Some None)
        \<and> (\<forall>p ps. positions r = Some (p # ps) \<longrightarrow>
           returned (getISSPosition h env x) = Some (Some p)))
   \<and> (truthy (env ''N2YO_API_KEY'') \<and> 200 \<le> s \<and> s \<le> 299 \<longrightarrow>
        returned (getSatellitePosition h env (Response t s (Json r)) 25544 1) = Some (Some r))"
proof (intro conjI impI allI)
  show "fetches (getISSPosition h env x) = fetches (getSatellitePosition h env x 25544 1)"
    by (simp add: getISSPosition_def fetches_bind_return)
qed (auto simp: getISSPosition_fetches getISSPosition_value getSatellitePosition_ok)

theorem iss_position_is_first_of_25544_witness:
  "fetches (getISSPosition test_host keyed_env
       (Response 40 200 (Json \<lparr>info = (), positions = Some [iss_fixture]\<rparr>)))
     = [''https://api.n2yo.com/rest/v1/satellite/positions/25544/0/0/0/1&apiKey=KEY'']
   \<and> returned (getISSPosition test_host keyed_env
       (Response 40 200 (Json \<lparr>info = (), positions = Some [iss_fixture]\<rparr>)))
     = Some (Some iss_fixture)"
proof -
  have key: "truthy (keyed_env ''N2YO_API_KEY'')" "the (keyed_env ''N2YO_API_KEY'') = ''KEY''"
    by (simp_all add: keyed_env_def truthy_def)
  from key
    iss_position_is_first_of_25544 [of keyed_env test_host
      "Response 40 200 (Json \<lparr>info = (), positions = Some [iss_fixture]\<rparr>)"
      "\<lparr>info = (), positions = Some [iss_fixture]\<rparr>" 200 40]
  show ?thesis
    by simp
qed

section \<open>Launch lists\<close>

lemma js_slice_prefix: "0 \<le> limit \<Longrightarrow> js_slice xs 0 limit = take (nat limit) xs"
  by (auto simp: js_slice_def Let_def min_def)

lemma js_slice_from_suffix:
  "0 < limit \<Longrightarrow> js_slice_from xs (- limit) = drop (length xs - nat limit) xs"
  by (auto simp: js_slice_from_def js_slice_def Let_def max_def nat_diff_distrib)

lemma getUpcomingSpaceXLaunches_ok:
  assumes "200 \<le> s" and "s \<le> 299"
  shows "returned (getUpcomingSpaceXLaunches (Response t s (Json launches)) limit)
           = Some (js_slice launches 0 limit)"
  using assms by (simp add: getUpcomingSpaceXLaunches_def guarded_fetch)

lemma getPastSpaceXLaunches_ok:
  assumes "200 \<le> s" and "s \<le> 299"
  shows "returned (getPastSpaceXLaunches (Response t s (Json launches)) limit)
           = Some (rev (js_slice_from launches (- limit)))"
  using assms by (simp add: getPastSpaceXLaunches_def guarded_fetch)

lemma date_ascending_take: "date_ascending ls \<Longrightarrow> date_ascending (take n ls)"
  by (simp add: date_ascending_def take_map [symmetric])

lemma date_descending_rev_drop: "date_ascending ls \<Longrightarrow> date_descending (rev (drop n ls))"
  by (simp add: date_ascending_def date_descending_def rev_map [symmetric] drop_map [symmetric])

text \<open>
  With the limit 0 the past launches are not capped: \<^verbatim>\<open>slice(-0)\<close> is \<^verbatim>\<open>slice(0)\<close>,
  the whole list.
\<close>

lemma getPastSpaceXLaunches_limit_zero:
  "returned (getPastSpaceXLaunches (Response t 200 (Json launches)) 0) = Some (rev launches)"
  by (simp add: getPastSpaceXLaunches_ok js_slice_from_def js_slice_def)

text \<open>
  C6, as stated, fails: the clients neither sort nor filter by date. A fetched list that is
  not in date order comes back in the fetched order (upcoming) or reversed (past).
\<close>

theorem launch_lists_sorted_counterexample:
  "returned (getUpcomingSpaceXLaunches
       (Response 20 200 (Json [launch_fixture ''Later'' ''2031-01-01'' 301 None,
                               launch_fixture ''Sooner'' ''2030-01-01'' 300 None])) 2)
     = Some [launch_fixture ''Later'' ''2031-01-01'' 301 None,
             launch_fixture ''Sooner'' ''2030-01-01'' 300 None]
   \<and> \<not> date_ascending [launch_fixture ''Later'' ''2031-01-01'' 301 None,
                        launch_fixture ''Sooner'' ''2030-01-01'' 300 None]
   \<and> returned (getPastSpaceXLaunches
       (Response 20 200 (Json [launch_fixture ''Newer'' ''2021-01-01'' 101 (Some True),
                               launch_fixture ''Older'' ''2020-01-01'' 100 (Some True)])) 2)
     = Some [launch_fixture ''Older'' ''2020-01-01'' 100 (Some True),
             launch_fixture ''Newer'' ''2021-01-01'' 101 (Some True)]
   \<and> \<not> date_descending [launch_fixture ''Older'' ''2020-01-01'' 100 (Some True),
                         launch_fixture ''Newer'' ''2021-01-01'' 101 (Some True)]"
  by (simp add: getUpcomingSpaceXLaunches_ok getPastSpaceXLaunches_ok js_slice_prefix
      js_slice_from_suffix date_ascending_def date_descending_def launch_fixture_def)

text \<open>
  C6, amended. For a successful exchange and a limit of at least 1, the upcoming launches
  are the first \<open>limit\<close> launches of the fetched list in the fetched order, and the past
  launches are its last \<open>limit\<close> launches in reverse order, so the last fetched launch
  comes first. Both are at most \<open>limit\<close> long. When the fetched list is in ascending date
  order, the upcoming launches are in ascending and the past launches in descending date
  order.
\<close>

theorem launch_lists_truncate_fetched_order:
  assumes "200 \<le> s" and "s \<le> 299" and "0 < limit"
  shows "returned (getUpcomingSpaceXLaunches (Response t s (Json launches)) limit)
           = Some (take (nat limit) launches)
       \<and> returned (getPastSpaceXLaunches (Response t s (Json launches)) limit)
           = Some (rev (drop (length launches - nat limit) launches))
       \<and> length (take (nat limit) launches) \<le> nat limit
       \<and> length (rev (drop (length launches - nat limit) launches)) \<le> nat limit
       \<and> (launches \<noteq> [] \<longrightarrow>
            hd (rev (drop (length launches - nat limit) launches)) = last launches)
       \<and> (date_ascending launches \<longrightarrow>
            date_ascending (take (nat limit) launches)
            \<and> date_descending (rev (drop (length launches - nat limit) launches)))"
proof (intro conjI impI)
  show "hd (rev (drop (length launches - nat limit) launches)) = last launches"
    if "launches \<noteq> []"
  proof -
    from that assms(3) have "drop (length launches - nat limit) launches \<noteq> []"
      by (cases launches) auto
    then show ?thesis
      by (simp add: hd_rev)
  qed
qed (use assms in \<open>simp_all add: getUpcomingSpaceXLaunches_ok getPastSpaceXLaunches_ok
    js_slice_prefix js_slice_from_suffix date_ascending_take date_descending_rev_drop\<close>)

theorem launch_lists_truncate_fetched_order_witness:
  "returned (getUpcomingSpaceXLaunches
       (Response 20 200 (Json [launch_fixture ''First'' ''2030-01-01'' 300 None,
                               launch_fixture ''Second'' ''2030-02-01'' 301 None,
                               launch_fixture ''Third'' ''2030-03-01'' 302 None])) 2)
     = Some [launch_fixture ''First'' ''2030-01-01'' 300 None,
             launch_fixture ''Second'' ''2030-02-01'' 301 None]
   \<and> returned (getPastSpaceXLaunches
       (Response 20 200 (Json [launch_fixture ''First'' ''2030-01-01'' 300 None,
                               launch_fixture ''Second'' ''2030-02-01'' 301 None,
                               launch_fixture ''Third'' ''2030-03-01'' 302 None])) 2)
     = Some [launch_fixture ''Third'' ''2030-03-01'' 302 None,
             launch_fixture ''Second'' ''2030-02-01'' 301 None]"
proof -
  have ok: "(200::nat) \<le> 200" "(200::nat) \<le> 299" "(0::int) < 2"
    by simp_all
  from launch_lists_truncate_fetched_order [OF ok, of 20
      "[launch_fixture ''First'' ''2030-01-01'' 300 None,
        launch_fixture ''Second'' ''2030-02-01'' 301 None,
        launch_fixture ''Third'' ''2030-03-01'' 302 None]"]
  show ?thesis
    by simp
qed

section \<open>Building the context block\<close>

lemma foldl_upcoming_line:
  "foldl (upcoming_line h) ctx (enumerate k ls)
     = ctx @ concat (map (\<lambda>i. show_nat (k + i + 1) @ ''. '' @ name (ls ! i) @ '' - ''
                        @ toLocaleDateString h (date_utc (ls ! i)) @ ''\<newline>'') [0..<length ls])"
proof (induction ls arbitrary: ctx k)
  case Nil
  then show ?case by simp
next
  case (Cons l ls)
  have "map (\<lambda>i. show_nat (k + i + 1) @ ''. '' @ name ((l # ls) ! i) @ '' - ''
                        @ toLocaleDateString h (date_utc ((l # ls) ! i)) @ ''\<newline>'') [0..<length (l # ls)]
     = (show_nat (k + 1) @ ''. '' @ name l @ '' - '' @ toLocaleDateString h (date_utc l) @ ''\<newline>'')
       # map (\<lambda>i. show_nat (Suc k + i + 1) @ ''. '' @ name (ls ! i) @ '' - ''
                        @ toLocaleDateString h (date_utc (ls ! i)) @ ''\<newline>'') [0..<length ls]"
    unfolding length_Cons by (subst map_upt_Suc) simp
  then show ?case
    using Cons.IH [of "upcoming_line h ctx (k, l)" "Suc k"]
    by (simp add: upcoming_line_def)
qed

lemma build_context_valid:
  assumes "\<forall>p. iss = Some p \<longrightarrow> valid_time (timestamp p * 1000)"
  shows "build_context h (iss, latest, launches, apod)
           = Done 0 (Inr (context_block h (iss, latest, launches, apod))) []"
proof -
  have iss_part: "(case iss of None \<Rightarrow> io_return context_header
         | Some iss \<Rightarrow> io_bind (toISOString (timestamp iss * 1000)) (\<lambda>updated.
                 io_return
                   (context_header @ ''\<newline>### ISS Current Position:\<newline>- Latitude: ''
                    @ toFixed h (satlatitude iss) 4 @ degree_sign @ ''\<newline>- Longitude: ''
                    @ toFixed h (satlongitude iss) 4 @ degree_sign @ ''\<newline>- Altitude: ''
                    @ toFixed h (sataltitude iss) 2 @ '' km\<newline>- Updated: '' @ updated
                    @ ''\<newline>'')))
     = Done 0 (Inr (context_header
          @ concat (map (render_section h) (case iss of None \<Rightarrow> [] | Some p \<Rightarrow> [IssSection p])))) []"
    using assms by (cases iss) (simp_all add: toISOString_def io_return_def)
  have launches_part: "\<And>ctx. (if length launches > 0 then
                      foldl (upcoming_line h)
                        (ctx @ ''\<newline>### Upcoming SpaceX Launches:\<newline>'')
                        (enumerate 0 launches)
                    else ctx)
     = ctx @ concat (map (render_section h) (if launches = [] then [] else [UpcomingSection launches]))"
    by (simp add: foldl_upcoming_line)
  have latest_part: "\<And>ctx. (case latest of
                      None \<Rightarrow> ctx
                    | Some latestLaunch \<Rightarrow>
                        ctx @ ''\<newline>### Latest SpaceX Launch:\<newline>- Mission: ''
                        @ name latestLaunch @ ''\<newline>- Flight #: ''
                        @ number_toString h (of_int (flight_number latestLaunch))
                        @ ''\<newline>- Date: '' @ toLocaleDateString h (date_utc latestLaunch)
                        @ ''\<newline>- Success: ''
                        @ (case success latestLaunch of
                             None \<Rightarrow> ''Pending''
                           | Some ok \<Rightarrow> if ok then ''Yes'' else ''No'')
                        @ ''\<newline>'')
      = ctx @ concat (map (render_section h) (case latest of None \<Rightarrow> [] | Some l \<Rightarrow> [LatestSection l]))"
    by (cases latest) (auto split: option.splits)
  have apod_part: "\<And>ctx. (case apod of
                      None \<Rightarrow> ctx
                    | Some apod \<Rightarrow>
                        ctx @ ''\<newline>### NASA Astronomy Picture of the Day:\<newline>- Title: ''
                        @ title apod @ ''\<newline>- Date: '' @ date apod @ ''\<newline>'')
      = ctx @ concat (map (render_section h) (case apod of None \<Rightarrow> [] | Some a \<Rightarrow> [ApodSection a]))"
    by (cases apod) simp_all
  show ?thesis
    unfolding build_context_def Let_def prod.case iss_part launches_part latest_part apod_part
    by (simp add: io_return_def context_block_def present_sections_def)
qed

lemma build_context_invalid:
  assumes "\<not> valid_time (timestamp p * 1000)"
  shows "build_context h (Some p, latest, launches, apod) = Done 0 (Inl RangeError) []"
  using assms by (simp add: build_context_def toISOString_def io_throw_def)


lemma promise_all4_resolved:
  assumes "\<not> raises a" "\<not> raises b" "\<not> raises c" "\<not> raises d"
  shows "promise_all4 a b c d =
      Done (max (max (elapsed a) (elapsed b)) (max (elapsed c) (elapsed d)))
        (Inr (the (returned a), the (returned b), the (returned c), the (returned d)))
        (events a @ events b @ events c @ events d)"
  using assms
  by (cases a; cases b; cases c; cases d)
    (auto simp: promise_all4_def raises_def returned_def split: sum.splits)

lemma build_context_cases:
  "build_context h (iss, latest, launches, apod) =
     (if datable iss then Done 0 (Inr (context_block h (iss, latest, launches, apod))) []
      else Done 0 (Inl RangeError) [])"
proof (cases "datable iss")
  case True
  then have "\<forall>p. iss = Some p \<longrightarrow> valid_time (timestamp p * 1000)"
    by (auto simp: datable_def)
  with True show ?thesis
    by (simp add: build_context_valid)
next
  case False
  then obtain p where "iss = Some p" "\<not> valid_time (timestamp p * 1000)"
    by (cases iss) (simp_all add: datable_def)
  with False show ?thesis
    by (simp add: build_context_invalid)
qed

lemma getSpaceContext_cases:
  "getSpaceContext h env xiss xlatest xupcoming xapod =
     (let iss_call = getISSPosition h env xiss;
          latest_call = getLatestSpaceXLaunch xlatest;
          upcoming_call = getUpcomingSpaceXLaunches xupcoming 3;
          apod_call = getNasaAPOD env xapod;
          finished = max (max (elapsed iss_call) (elapsed latest_call))
                         (max (elapsed upcoming_call) (elapsed apod_call));
          results = (the (returned iss_call), the (returned latest_call),
                     the (returned upcoming_call), the (returned apod_call));
          effects = events iss_call @ events latest_call @ events upcoming_call @ events apod_call
      in if datable (fst results) then Done finished (Inr (context_block h results)) effects
         else Done finished (Inr '''')
                (effects @ [ConsoleError ''Error fetching space context:'' (Some RangeError)]))"
  unfolding getSpaceContext_def Let_def
  by (subst promise_all4_resolved)
    (simp_all add: getISSPosition_total getLatestSpaceXLaunch_total
      getUpcomingSpaceXLaunches_total getNasaAPOD_total build_context_cases
      console_error_def io_return_def)

lemma guarded_fetch_delayed:
  "returned (try_catch
     (io_bind (fetch u (delayed t' x)) (\<lambda>response.
        if \<not> response_ok response then io_throw (Error (msg response))
        else io_bind (response_json response) (\<lambda>v. io_return (f v))))
     (\<lambda>error. io_bind (console_error line (Some error)) (\<lambda>_. io_return d)))
   = returned (try_catch
     (io_bind (fetch u x) (\<lambda>response.
        if \<not> response_ok response then io_throw (Error (msg response))
        else io_bind (response_json response) (\<lambda>v. io_return (f v))))
     (\<lambda>error. io_bind (console_error line (Some error)) (\<lambda>_. io_return d)))"
  by (simp add: guarded_fetch delayed_def split: exchange.splits body.splits)

lemma guarded_fetch_elapsed:
  "elapsed (try_catch
     (io_bind (fetch u x) (\<lambda>response.
        if \<not> response_ok response then io_throw (Error (msg response))
        else io_bind (response_json response) (\<lambda>v. io_return (f v))))
     (\<lambda>error. io_bind (console_error line (Some error)) (\<lambda>_. io_return d)))
   = latency x"
  by (simp add: guarded_fetch latency_def split: exchange.splits body.splits)

lemma getLatestSpaceXLaunch_delayed:
  "returned (getLatestSpaceXLaunch (delayed t x)) = returned (getLatestSpaceXLaunch x)"
  by (simp add: getLatestSpaceXLaunch_def guarded_fetch_delayed)

lemma getUpcomingSpaceXLaunches_delayed:
  "returned (getUpcomingSpaceXLaunches (delayed t x) limit) = returned (getUpcomingSpaceXLaunches x limit)"
  by (simp add: getUpcomingSpaceXLaunches_def guarded_fetch_delayed)

lemma getNasaAPOD_delayed:
  "returned (getNasaAPOD env (delayed t x)) = returned (getNasaAPOD env x)"
  by (simp add: getNasaAPOD_def Let_def guarded_fetch_delayed)

lemma getSatellitePosition_delayed:
  "returned (getSatellitePosition h env (delayed t x) n s) = returned (getSatellitePosition h env x n s)"
  by (simp add: getSatellitePosition_def Let_def guarded_fetch_delayed)

lemma getISSPosition_delayed:
  "returned (getISSPosition h env (delayed t x)) = returned (getISSPosition h env x)"
  by (simp add: getISSPosition_value getSatellitePosition_delayed)

lemma getSpaceContext_delayed:
  "returned (getSpaceContext h env (delayed t1 xiss) (delayed t2 xlatest) (delayed t3 xupcoming) (delayed t4 xapod))
     = returned (getSpaceContext h env xiss xlatest xupcoming xapod)"
  by (simp add: getSpaceContext_cases Let_def getISSPosition_delayed getLatestSpaceXLaunch_delayed
      getUpcomingSpaceXLaunches_delayed getNasaAPOD_delayed)

lemma elapsed_bind_return: "elapsed (io_bind m (\<lambda>r. io_return (g r))) = elapsed m"
  by (simp add: io_bind_io_return split: io.splits sum.splits)

lemma getSatellitePosition_elapsed:
  "elapsed (getSatellitePosition h env x n s) = (if truthy (env ''N2YO_API_KEY'') then latency x else 0)"
proof (cases "truthy (env ''N2YO_API_KEY'')")
  case True
  then show ?thesis
    by (simp add: getSatellitePosition_def Let_def guarded_fetch_elapsed)
next
  case False
  then show ?thesis
    by (simp add: getSatellitePosition_no_key)
qed

lemma elapsed_calls:
  "elapsed (getLatestSpaceXLaunch x) = latency x"
  "elapsed (getUpcomingSpaceXLaunches y limit) = latency y"
  "elapsed (getNasaAPOD env z) = latency z"
  "elapsed (getISSPosition h env w) = (if truthy (env ''N2YO_API_KEY'') then latency w else 0)"
  by (simp_all add: getLatestSpaceXLaunch_def getUpcomingSpaceXLaunches_def getNasaAPOD_def
      Let_def guarded_fetch_elapsed getISSPosition_def elapsed_bind_return
      getSatellitePosition_elapsed)


section \<open>Fixed-point digits\<close>

lemma below_ten: "k < 10 \<Longrightarrow> k = 0 \<or> k = 1 \<or> k = 2 \<or> k = 3 \<or> k = 4 \<or> k = 5 \<or> k = 6 \<or> k = 7 \<or> k = 8 \<or> k = (9::nat)"
  by arith

lemma digit_char_digit: "digit_char d \<in> set ''0123456789''"
  unfolding digit_char_def by (rule nth_mem) simp

lemma digit_value_digit_char: "digit_value (digit_char d) = d mod 10"
proof -
  have "d mod 10 < 10" by simp
  from below_ten [OF this] show ?thesis
    by (auto simp: digit_char_def digit_value_def)
qed

lemma is_digits_append [simp]: "is_digits (xs @ ys) \<longleftrightarrow> is_digits xs \<and> is_digits ys"
  by (simp add: is_digits_def)

lemma is_digits_show_nat: "is_digits (show_nat n)"
proof (induction n rule: show_nat.induct)
  case (1 n)
  then show ?case
    using digit_char_digit by (subst show_nat.simps) (simp add: is_digits_def)
qed

lemma digits_value_snoc: "digits_value (xs @ [c]) = 10 * digits_value xs + digit_value c"
  by (simp add: digits_value_def)

lemma digits_value_show_nat: "digits_value (show_nat n) = n"
proof (induction n rule: show_nat.induct)
  case (1 n)
  show ?case
  proof (cases "n < 10")
    case True
    then show ?thesis
      by (subst show_nat.simps) (simp add: digits_value_def digit_value_digit_char)
  next
    case False
    with 1 show ?thesis
      by (subst show_nat.simps) (simp add: digits_value_snoc digit_value_digit_char)
  qed
qed

lemma digits_value_zeros: "digits_value (replicate k (CHR ''0'') @ s) = digits_value s"
proof -
  have "foldl (\<lambda>n c. 10 * n + digit_value c) 0 (replicate k (CHR ''0'')) = 0"
    by (induction k) (simp_all add: digit_value_def)
  then show ?thesis
    by (simp add: digits_value_def)
qed

lemma show_nat_nonempty: "show_nat n \<noteq> []"
  by (subst show_nat.simps) simp

lemma toFixed_shape:
  assumes "\<bar>x\<bar> < 10 ^ 21" and "0 < f"
  shows "\<exists>a b. toFixed h x f = (if x < 0 then ''-'' else '''') @ a @ ''.'' @ b
           \<and> length b = f \<and> a \<noteq> [] \<and> is_digits a \<and> is_digits b
           \<and> digits_value (a @ b) = nat \<lfloor>\<bar>x\<bar> * 10 ^ f + 1 / 2\<rfloor>"
proof -
  define n where "n = nat \<lfloor>\<bar>x\<bar> * 10 ^ f + 1 / 2\<rfloor>"
  define k where "k = length (show_nat n)"
  define m where "m = (if k \<le> f then replicate (f + 1 - k) (CHR ''0'') @ show_nat n else show_nat n)"
  define k' where "k' = (if k \<le> f then f + 1 else k)"
  have fixed: "toFixed h x f = (if x < 0 then ''-'' else '''') @ take (k' - f) m @ ''.'' @ drop (k' - f) m"
    using assms by (simp add: toFixed_def Let_def n_def k_def m_def k'_def)
  have len: "length m = k'" "f < k'"
    using show_nat_nonempty [of n] by (auto simp: m_def k'_def k_def)
  have "is_digits (replicate (f + 1 - k) (CHR ''0''))"
    by (simp add: is_digits_def list_all_iff)
  then have digits: "is_digits m"
    by (simp add: m_def is_digits_show_nat)
  have val: "digits_value m = n"
    by (simp add: m_def digits_value_zeros digits_value_show_nat)
  have split: "take (k' - f) m @ drop (k' - f) m = m"
    by simp
  have "length (drop (k' - f) m) = f" "take (k' - f) m \<noteq> []"
    using len by auto
  moreover have "is_digits (take (k' - f) m)" "is_digits (drop (k' - f) m)"
    using digits split by (metis is_digits_append)+
  ultimately show ?thesis
    using fixed val split unfolding n_def by (metis (no_types, lifting))
qed


section \<open>The fixed payload\<close>

lemma latitude_fixture: "toFixed h (satlatitude iss_fixture) 4 = ''51.5074''"
proof -
  have r: "\<lfloor>\<bar>satlatitude iss_fixture\<bar> * 10 ^ 4 + 1 / 2\<rfloor> = 515074"
    and bounds: "\<not> 10 ^ 21 \<le> \<bar>satlatitude iss_fixture\<bar>" "\<not> satlatitude iss_fixture < 0"
    by code_simp+
  have n: "nat \<lfloor>\<bar>satlatitude iss_fixture\<bar> * 10 ^ 4 + 1 / 2\<rfloor> = 515074"
    unfolding r by simp
  have m: "show_nat 515074 = ''515074''"
    by (simp add: show_nat.simps digit_char_def)
  show ?thesis
    unfolding toFixed_def Let_def n m using bounds by simp
qed

lemma longitude_fixture: "toFixed h (satlongitude iss_fixture) 4 = ''-0.1278''"
proof -
  have r: "\<lfloor>\<bar>satlongitude iss_fixture\<bar> * 10 ^ 4 + 1 / 2\<rfloor> = 1278"
    and bounds: "\<not> 10 ^ 21 \<le> \<bar>satlongitude iss_fixture\<bar>" "satlongitude iss_fixture < 0"
    by code_simp+
  have n: "nat \<lfloor>\<bar>satlongitude iss_fixture\<bar> * 10 ^ 4 + 1 / 2\<rfloor> = 1278"
    unfolding r by simp
  have m: "show_nat 1278 = ''1278''"
    by (simp add: show_nat.simps digit_char_def)
  show ?thesis
    unfolding toFixed_def Let_def n m using bounds by simp
qed

lemma altitude_fixture: "toFixed h (sataltitude iss_fixture) 2 = ''408.00''"
proof -
  have r: "\<lfloor>\<bar>sataltitude iss_fixture\<bar> * 10 ^ 2 + 1 / 2\<rfloor> = 40800"
    and bounds: "\<not> 10 ^ 21 \<le> \<bar>sataltitude iss_fixture\<bar>" "\<not> sataltitude iss_fixture < 0"
    by code_simp+
  have n: "nat \<lfloor>\<bar>sataltitude iss_fixture\<bar> * 10 ^ 2 + 1 / 2\<rfloor> = 40800"
    unfolding r by simp
  have m: "show_nat 40800 = ''40800''"
    by (simp add: show_nat.simps digit_char_def)
  show ?thesis
    unfolding toFixed_def Let_def n m using bounds by simp
qed

lemma updated_fixture:
  "iso_string (timestamp iss_fixture * 1000) = ''2023-11-14T22:13:20.000Z''"
  by code_simp

lemma valid_time_fixture: "valid_time (timestamp iss_fixture * 1000)"
  by (simp add: valid_time_def iss_fixture_def)

lemma iss_section_fixture:
  "render_section h (IssSection iss_fixture) =
     ''\<newline>### ISS Current Position:\<newline>- Latitude: 51.5074'' @ degree_sign
     @ ''\<newline>- Longitude: -0.1278'' @ degree_sign
     @ ''\<newline>- Altitude: 408.00 km\<newline>- Updated: 2023-11-14T22:13:20.000Z\<newline>''"
  by (simp add: latitude_fixture longitude_fixture altitude_fixture updated_fixture)

section \<open>What the aggregator returns\<close>

lemma getSpaceContext_total: "\<not> raises (getSpaceContext h env xiss xlatest xupcoming xapod)"
  by (simp add: getSpaceContext_cases Let_def raises_def)

lemma getSpaceContext_block:
  assumes "returned (getISSPosition h env xiss) = Some iss"
    and "returned (getLatestSpaceXLaunch xlatest) = Some latest"
    and "returned (getUpcomingSpaceXLaunches xupcoming 3) = Some launches"
    and "returned (getNasaAPOD env xapod) = Some apod"
  shows "returned (getSpaceContext h env xiss xlatest xupcoming xapod)
           = Some (if datable iss then context_block h (iss, latest, launches, apod) else '''')"
  using assms by (simp add: getSpaceContext_cases Let_def)

lemma returned_total: "\<not> raises m \<Longrightarrow> \<exists>v. returned m = Some v"
  by (cases m) (auto simp: raises_def returned_def split: sum.splits)

lemma context_block_iss_first:
  "context_block h (Some p, latest, launches, apod)
     = context_header @ render_section h (IssSection p)
       @ concat (map (render_section h) (present_sections (None, latest, launches, apod)))"
  by (simp add: context_block_def present_sections_def)

lemma POST_returned:
  "returned (POST h env xiss xlatest xupcoming xapod msgs)
     = map_option (\<lambda>spaceContext.
         \<lparr>model = ''gemini-2.5-flash'', system = ATHEY_SYSTEM_PROMPT @ spaceContext,
          messages = msgs\<rparr>)
         (returned (getSpaceContext h env xiss xlatest xupcoming xapod))"
  by (simp add: POST_def io_bind_io_return enhancedSystemPrompt_def returned_def
      split: io.splits sum.splits)

section \<open>The ISS section\<close>

text \<open>
  C9, as stated, fails for a position whose time stamp is not a valid date: the
  \<open>RangeError\<close> of \<^verbatim>\<open>toISOString\<close> is caught by \<open>getSpaceContext\<close>, which then returns the
  empty string, with no ISS section in it.
\<close>

theorem iss_section_counterexample:
  "returned (getISSPosition test_host keyed_env
       (Response 40 200
          (Json \<lparr>info = (), positions = Some [iss_fixture\<lparr>timestamp := 10000000000000\<rparr>]\<rparr>)))
     = Some (Some (iss_fixture\<lparr>timestamp := 10000000000000\<rparr>))
   \<and> returned (getSpaceContext test_host keyed_env
       (Response 40 200
          (Json \<lparr>info = (), positions = Some [iss_fixture\<lparr>timestamp := 10000000000000\<rparr>]\<rparr>))
       (NetworkFailure 7) (NetworkFailure 7) (NetworkFailure 7))
     = Some ''''"
proof -
  have key: "truthy (keyed_env ''N2YO_API_KEY'')"
    by (simp add: keyed_env_def truthy_def)
  have iss: "returned (getISSPosition test_host keyed_env
       (Response 40 200
          (Json \<lparr>info = (), positions = Some [iss_fixture\<lparr>timestamp := 10000000000000\<rparr>]\<rparr>)))
     = Some (Some (iss_fixture\<lparr>timestamp := 10000000000000\<rparr>))"
    using key by (simp add: getISSPosition_value getSatellitePosition_ok)
  have "\<not> datable (Some (iss_fixture\<lparr>timestamp := 10000000000000\<rparr>))"
    by (simp add: datable_def valid_time_def)
  with iss show ?thesis
    by (simp add: getSpaceContext_block [OF iss] getLatestSpaceXLaunch_failed
        getUpcomingSpaceXLaunches_failed getNasaAPOD_failed transport_failed_def)
qed

text \<open>
  C9, amended. For every present position whose time stamp times 1000 is a valid date and
  whose latitude and longitude are below \<open>10^21\<close> in magnitude, the context starts with
  the header and the ISS section. In that section the latitude and the longitude are
  printed with a sign, at least one integer digit, a point and exactly four decimal
  digits, which together denote the magnitude rounded to four places; the date is the ISO
  string of the time stamp times 1000. For the fixed payload the section reads
  51.5074, -0.1278, 408.00 km and 2023-11-14T22:13:20.000Z.
\<close>

theorem iss_section_four_decimals:
  assumes "returned (getISSPosition h env xiss) = Some (Some p)"
    and "valid_time (timestamp p * 1000)"
    and "\<bar>satlatitude p\<bar> < 10 ^ 21"
    and "\<bar>satlongitude p\<bar> < 10 ^ 21"
  shows "(\<exists>lat_int lat_frac lon_int lon_frac rest.
      returned (getSpaceContext h env xiss xlatest xupcoming xapod)
        = Some (context_header
                @ ''\<newline>### ISS Current Position:''
                @ ''\<newline>- Latitude: '' @ (if satlatitude p < 0 then ''-'' else '''')
                @ lat_int @ ''.'' @ lat_frac @ degree_sign
                @ ''\<newline>- Longitude: '' @ (if satlongitude p < 0 then ''-'' else '''')
                @ lon_int @ ''.'' @ lon_frac @ degree_sign
                @ ''\<newline>- Altitude: '' @ toFixed h (sataltitude p) 2 @ '' km''
                @ ''\<newline>- Updated: '' @ iso_string (timestamp p * 1000) @ ''\<newline>'' @ rest)
      \<and> length lat_frac = 4 \<and> is_digits lat_frac \<and> is_digits lat_int \<and> lat_int \<noteq> []
      \<and> digits_value (lat_int @ lat_frac) = nat \<lfloor>\<bar>satlatitude p\<bar> * 10 ^ 4 + 1 / 2\<rfloor>
      \<and> length lon_frac = 4 \<and> is_digits lon_frac \<and> is_digits lon_int \<and> lon_int \<noteq> []
      \<and> digits_value (lon_int @ lon_frac) = nat \<lfloor>\<bar>satlongitude p\<bar> * 10 ^ 4 + 1 / 2\<rfloor>)
    \<and> build_context h (Some iss_fixture, None, [], None)
        = Done 0 (Inr (context_header
            @ ''\<newline>### ISS Current Position:\<newline>- Latitude: 51.5074'' @ degree_sign
            @ ''\<newline>- Longitude: -0.1278'' @ degree_sign
            @ ''\<newline>- Altitude: 408.00 km\<newline>- Updated: 2023-11-14T22:13:20.000Z\<newline>'')) []"
proof (intro conjI)
  obtain latest launches apod where others:
    "returned (getLatestSpaceXLaunch xlatest) = Some latest"
    "returned (getUpcomingSpaceXLaunches xupcoming 3) = Some launches"
    "returned (getNasaAPOD env xapod) = Some apod"
    using returned_total [OF getLatestSpaceXLaunch_total]
      returned_total [OF getUpcomingSpaceXLaunches_total] returned_total [OF getNasaAPOD_total]
    by metis
  define rest where
    "rest = concat (map (render_section h) (present_sections (None, latest, launches, apod)))"
  from assms(2) have "datable (Some p)"
    by (simp add: datable_def)
  then have ctx: "returned (getSpaceContext h env xiss xlatest xupcoming xapod)
      = Some (context_header @ render_section h (IssSection p) @ rest)"
    by (simp add: getSpaceContext_block [OF assms(1) others] context_block_iss_first rest_def)
  from toFixed_shape [OF assms(3), of 4 h] obtain lat_int lat_frac where lat:
    "toFixed h (satlatitude p) 4 = (if satlatitude p < 0 then ''-'' else '''') @ lat_int @ ''.'' @ lat_frac"
    "length lat_frac = 4" "lat_int \<noteq> []" "is_digits lat_int" "is_digits lat_frac"
    "digits_value (lat_int @ lat_frac) = nat \<lfloor>\<bar>satlatitude p\<bar> * 10 ^ 4 + 1 / 2\<rfloor>"
    by auto
  from toFixed_shape [OF assms(4), of 4 h] obtain lon_int lon_frac where lon:
    "toFixed h (satlongitude p) 4 = (if satlongitude p < 0 then ''-'' else '''') @ lon_int @ ''.'' @ lon_frac"
    "length lon_frac = 4" "lon_int \<noteq> []" "is_digits lon_int" "is_digits lon_frac"
    "digits_value (lon_int @ lon_frac) = nat \<lfloor>\<bar>satlongitude p\<bar> * 10 ^ 4 + 1 / 2\<rfloor>"
    by auto
  have "returned (getSpaceContext h env xiss xlatest xupcoming xapod)
        = Some (context_header
                @ ''\<newline>### ISS Current Position:''
                @ ''\<newline>- Latitude: '' @ (if satlatitude p < 0 then ''-'' else '''')
                @ lat_int @ ''.'' @ lat_frac @ degree_sign
                @ ''\<newline>- Longitude: '' @ (if satlongitude p < 0 then ''-'' else '''')
                @ lon_int @ ''.'' @ lon_frac @ degree_sign
                @ ''\<newline>- Altitude: '' @ toFixed h (sataltitude p) 2 @ '' km''
                @ ''\<newline>- Updated: '' @ iso_string (timestamp p * 1000) @ ''\<newline>'' @ rest)"
    unfolding ctx render_section.simps lat(1) lon(1) by simp
  with lat(2-) lon(2-) show "\<exists>lat_int lat_frac lon_int lon_frac rest.
      returned (getSpaceContext h env xiss xlatest xupcoming xapod)
        = Some (context_header
                @ ''\<newline>### ISS Current Position:''
                @ ''\<newline>- Latitude: '' @ (if satlatitude p < 0 then ''-'' else '''')
                @ lat_int @ ''.'' @ lat_frac @ degree_sign
                @ ''\<newline>- Longitude: '' @ (if satlongitude p < 0 then ''-'' else '''')
                @ lon_int @ ''.'' @ lon_frac @ degree_sign
                @ ''\<newline>- Altitude: '' @ toFixed h (sataltitude p) 2 @ '' km''
                @ ''\<newline>- Updated: '' @ iso_string (timestamp p * 1000) @ ''\<newline>'' @ rest)
      \<and> length lat_frac = 4 \<and> is_digits lat_frac \<and> is_digits lat_int \<and> lat_int \<noteq> []
      \<and> digits_value (lat_int @ lat_frac) = nat \<lfloor>\<bar>satlatitude p\<bar> * 10 ^ 4 + 1 / 2\<rfloor>
      \<and> length lon_frac = 4 \<and> is_digits lon_frac \<and> is_digits lon_int \<and> lon_int \<noteq> []
      \<and> digits_value (lon_int @ lon_frac) = nat \<lfloor>\<bar>satlongitude p\<bar> * 10 ^ 4 + 1 / 2\<rfloor>"
    by blast
next
  have "datable (Some iss_fixture)"
    by (simp add: datable_def valid_time_fixture)
  then show "build_context h (Some iss_fixture, None, [], None)
        = Done 0 (Inr (context_header
            @ ''\<newline>### ISS Current Position:\<newline>- Latitude: 51.5074'' @ degree_sign
            @ ''\<newline>- Longitude: -0.1278'' @ degree_sign
            @ ''\<newline>- Altitude: 408.00 km\<newline>- Updated: 2023-11-14T22:13:20.000Z\<newline>'')) []"
    by (simp add: build_context_cases context_block_iss_first iss_section_fixture
        present_sections_def del: render_section.simps)
qed

theorem iss_section_four_decimals_witness:
  "returned (getSpaceContext test_host keyed_env
       (Response 40 200 (Json \<lparr>info = (), positions = Some [iss_fixture]\<rparr>))
       (NetworkFailure 7) (NetworkFailure 7) (NetworkFailure 7))
     = Some (context_header
            @ ''\<newline>### ISS Current Position:\<newline>- Latitude: 51.5074'' @ degree_sign
            @ ''\<newline>- Longitude: -0.1278'' @ degree_sign
            @ ''\<newline>- Altitude: 408.00 km\<newline>- Updated: 2023-11-14T22:13:20.000Z\<newline>'')
   \<and> (\<exists>lat_frac lat_int rest.
        returned (getSpaceContext test_host keyed_env
          (Response 40 200 (Json \<lparr>info = (), positions = Some [iss_fixture]\<rparr>))
          (NetworkFailure 7) (NetworkFailure 7) (NetworkFailure 7))
        = Some (context_header @ ''\<newline>### ISS Current Position:''
                @ ''\<newline>- Latitude: '' @ lat_int @ ''.'' @ lat_frac @ degree_sign @ rest)
        \<and> length lat_frac = 4)"
proof -
  have key: "truthy (keyed_env ''N2YO_API_KEY'')"
    by (simp add: keyed_env_def truthy_def)
  have iss: "returned (getISSPosition test_host keyed_env
       (Response 40 200 (Json \<lparr>info = (), positions = Some [iss_fixture]\<rparr>)))
     = Some (Some iss_fixture)"
    using key by (simp add: getISSPosition_value getSatellitePosition_ok)
  have bounds: "\<bar>satlatitude iss_fixture\<bar> < 10 ^ 21" "\<bar>satlongitude iss_fixture\<bar> < 10 ^ 21"
    "\<not> satlatitude iss_fixture < 0"
    by code_simp+
  note general = iss_section_four_decimals [OF iss valid_time_fixture bounds(1,2),
      where xlatest = "NetworkFailure 7" and xupcoming = "NetworkFailure 7"
        and xapod = "NetworkFailure 7"]
  have "datable (Some iss_fixture)"
    by (simp add: datable_def valid_time_fixture)
  then have literal: "returned (getSpaceContext test_host keyed_env
       (Response 40 200 (Json \<lparr>info = (), positions = Some [iss_fixture]\<rparr>))
       (NetworkFailure 7) (NetworkFailure 7) (NetworkFailure 7))
     = Some (context_header
            @ ''\<newline>### ISS Current Position:\<newline>- Latitude: 51.5074'' @ degree_sign
            @ ''\<newline>- Longitude: -0.1278'' @ degree_sign
            @ ''\<newline>- Altitude: 408.00 km\<newline>- Updated: 2023-11-14T22:13:20.000Z\<newline>'')"
    by (simp add: getSpaceContext_block [OF iss] getLatestSpaceXLaunch_failed
        getUpcomingSpaceXLaunches_failed getNasaAPOD_failed transport_failed_def
        context_block_iss_first iss_section_fixture present_sections_def
        del: render_section.simps)
  from general bounds(3) obtain lat_int lat_frac rest where
    "returned (getSpaceContext test_host keyed_env
          (Response 40 200 (Json \<lparr>info = (), positions = Some [iss_fixture]\<rparr>))
          (NetworkFailure 7) (NetworkFailure 7) (NetworkFailure 7))
        = Some (context_header @ ''\<newline>### ISS Current Position:''
                @ ''\<newline>- Latitude: '' @ lat_int @ ''.'' @ lat_frac @ degree_sign @ rest)"
    "length lat_frac = 4"
    by (metis append_assoc)
  with literal show ?thesis
    by blast
qed

section \<open>The context block\<close>

lemma context_block_nonempty: "context_block h results \<noteq> []"
  by (simp add: context_block_def context_header_def)

lemma context_block_header: "prefix context_header (context_block h results)"
  by (simp add: context_block_def)

text \<open>
  C4, as stated, fails when the ISS position is present with a time stamp that is not a
  valid date: with the position and the daily image both present, the context is the empty
  string and lists neither section.
\<close>

theorem context_block_counterexample:
  "returned (getISSPosition test_host keyed_env
       (Response 40 200
          (Json \<lparr>info = (), positions = Some [iss_fixture\<lparr>timestamp := - 10000000000000\<rparr>]\<rparr>)))
     = Some (Some (iss_fixture\<lparr>timestamp := - 10000000000000\<rparr>))
   \<and> returned (getNasaAPOD keyed_env (Response 10 200 (Json apod_fixture)))
     = Some (Some apod_fixture)
   \<and> returned (getSpaceContext test_host keyed_env
       (Response 40 200
          (Json \<lparr>info = (), positions = Some [iss_fixture\<lparr>timestamp := - 10000000000000\<rparr>]\<rparr>))
       (NetworkFailure 7) (NetworkFailure 7) (Response 10 200 (Json apod_fixture)))
     = Some ''''"
proof -
  have key: "truthy (keyed_env ''N2YO_API_KEY'')"
    by (simp add: keyed_env_def truthy_def)
  have iss: "returned (getISSPosition test_host keyed_env
       (Response 40 200
          (Json \<lparr>info = (), positions = Some [iss_fixture\<lparr>timestamp := - 10000000000000\<rparr>]\<rparr>)))
     = Some (Some (iss_fixture\<lparr>timestamp := - 10000000000000\<rparr>))"
    using key by (simp add: getISSPosition_value getSatellitePosition_ok)
  have apod: "returned (getNasaAPOD keyed_env (Response 10 200 (Json apod_fixture)))
     = Some (Some apod_fixture)"
    by (simp add: getNasaAPOD_ok)
  have "\<not> datable (Some (iss_fixture\<lparr>timestamp := - 10000000000000\<rparr>))"
    by (simp add: datable_def valid_time_def)
  with iss apod show ?thesis
    by (simp add: getSpaceContext_block [OF iss _ _ apod] getLatestSpaceXLaunch_failed
        getUpcomingSpaceXLaunches_failed transport_failed_def)
qed

text \<open>
  C4, amended. Whatever the four providers return, provided the ISS position, when
  present, has a time stamp that gives a valid date, the context is the header followed by
  the sections of exactly the present results, each in its fixed layout, in the order ISS
  position, latest launch, upcoming launches, daily image. It is not empty, and it is the
  same when the four exchanges take other times to complete, so it does not depend on the
  order in which the calls complete.
\<close>

theorem context_block_in_priority_order:
  assumes "returned (getISSPosition h env xiss) = Some iss"
    and "returned (getLatestSpaceXLaunch xlatest) = Some latest"
    and "returned (getUpcomingSpaceXLaunches xupcoming 3) = Some launches"
    and "returned (getNasaAPOD env xapod) = Some apod"
    and "datable iss"
  shows "returned (getSpaceContext h env xiss xlatest xupcoming xapod)
           = Some (context_block h (iss, latest, launches, apod))
       \<and> returned (getSpaceContext h env (delayed t1 xiss) (delayed t2 xlatest)
                    (delayed t3 xupcoming) (delayed t4 xapod))
           = Some (context_block h (iss, latest, launches, apod))
       \<and> context_block h (iss, latest, launches, apod) \<noteq> []"
  using assms
  by (simp add: getSpaceContext_delayed getSpaceContext_block [OF assms(1-4)]
      context_block_nonempty)

theorem context_block_in_priority_order_witness:
  "returned (getSpaceContext test_host keyed_env
       (Response 40 200 (Json \<lparr>info = (), positions = Some [iss_fixture]\<rparr>))
       (Response 30 200 (Json (launch_fixture ''Crew-5'' ''2022-10-05'' 187 (Some True))))
       (Response 20 200 (Json [launch_fixture ''Starlink 7-1'' ''2030-01-01'' 300 None,
                               launch_fixture ''Starlink 7-2'' ''2030-02-01'' 301 None]))
       (Response 10 200 (Json apod_fixture)))
     = Some (context_header
         @ ''\<newline>### ISS Current Position:\<newline>- Latitude: 51.5074'' @ degree_sign
         @ ''\<newline>- Longitude: -0.1278'' @ degree_sign
         @ ''\<newline>- Altitude: 408.00 km\<newline>- Updated: 2023-11-14T22:13:20.000Z\<newline>''
         @ ''\<newline>### Latest SpaceX Launch:\<newline>- Mission: Crew-5\<newline>- Flight #: 187''
         @ ''\<newline>- Date: 2022-10-05\<newline>- Success: Yes\<newline>''
         @ ''\<newline>### Upcoming SpaceX Launches:\<newline>1. Starlink 7-1 - 2030-01-01\<newline>''
         @ ''2. Starlink 7-2 - 2030-02-01\<newline>''
         @ ''\<newline>### NASA Astronomy Picture of the Day:\<newline>- Title: Orion Nebula''
         @ ''\<newline>- Date: 2023-11-14\<newline>'')"
proof -
  have key: "truthy (keyed_env ''N2YO_API_KEY'')"
    by (simp add: keyed_env_def truthy_def)
  have iss: "returned (getISSPosition test_host keyed_env
       (Response 40 200 (Json \<lparr>info = (), positions = Some [iss_fixture]\<rparr>)))
     = Some (Some iss_fixture)"
    using key by (simp add: getISSPosition_value getSatellitePosition_ok)
  have latest: "returned (getLatestSpaceXLaunch
        (Response 30 200 (Json (launch_fixture ''Crew-5'' ''2022-10-05'' 187 (Some True)))))
     = Some (Some (launch_fixture ''Crew-5'' ''2022-10-05'' 187 (Some True)))"
    by (simp add: getLatestSpaceXLaunch_def guarded_fetch)
  have launches: "returned (getUpcomingSpaceXLaunches
       (Response 20 200 (Json [launch_fixture ''Starlink 7-1'' ''2030-01-01'' 300 None,
                               launch_fixture ''Starlink 7-2'' ''2030-02-01'' 301 None])) 3)
     = Some [launch_fixture ''Starlink 7-1'' ''2030-01-01'' 300 None,
             launch_fixture ''Starlink 7-2'' ''2030-02-01'' 301 None]"
    by (simp add: getUpcomingSpaceXLaunches_ok js_slice_prefix)
  have apod: "returned (getNasaAPOD keyed_env (Response 10 200 (Json apod_fixture)))
     = Some (Some apod_fixture)"
    by (simp add: getNasaAPOD_ok)
  have datable: "datable (Some iss_fixture)"
    by (simp add: datable_def valid_time_fixture)
  have flight: "number_toString test_host (of_int 187) = ''187''"
    by (simp add: number_toString_def show_int_def show_nat.simps digit_char_def)
  have lines: "show_nat (Suc 0) = ''1''" "show_nat (Suc (Suc 0)) = ''2''"
    by (simp_all add: show_nat.simps digit_char_def)
  have block: "context_block test_host
       (Some iss_fixture, Some (launch_fixture ''Crew-5'' ''2022-10-05'' 187 (Some True)),
        [launch_fixture ''Starlink 7-1'' ''2030-01-01'' 300 None,
         launch_fixture ''Starlink 7-2'' ''2030-02-01'' 301 None], Some apod_fixture)
     = context_header
         @ ''\<newline>### ISS Current Position:\<newline>- Latitude: 51.5074'' @ degree_sign
         @ ''\<newline>- Longitude: -0.1278'' @ degree_sign
         @ ''\<newline>- Altitude: 408.00 km\<newline>- Updated: 2023-11-14T22:13:20.000Z\<newline>''
         @ ''\<newline>### Latest SpaceX Launch:\<newline>- Mission: Crew-5\<newline>- Flight #: 187''
         @ ''\<newline>- Date: 2022-10-05\<newline>- Success: Yes\<newline>''
         @ ''\<newline>### Upcoming SpaceX Launches:\<newline>1. Starlink 7-1 - 2030-01-01\<newline>''
         @ ''2. Starlink 7-2 - 2030-02-01\<newline>''
         @ ''\<newline>### NASA Astronomy Picture of the Day:\<newline>- Title: Orion Nebula''
         @ ''\<newline>- Date: 2023-11-14\<newline>''"
    unfolding context_block_iss_first iss_section_fixture
    by (simp add: present_sections_def launch_fixture_def apod_fixture_def test_host_def
        flight [unfolded test_host_def, simplified] lines upt_rec [of 0])
  from context_block_in_priority_order [OF iss latest launches apod datable] block
  show ?thesis
    by simp
qed

section \<open>No provider has data\<close>

text \<open>
  C1, as stated, fails: with all four providers absent the context is the header line,
  not the empty string, and the system prompt is longer than the policy text.
\<close>

theorem all_absent_counterexample:
  "returned (getSpaceContext test_host Map.empty
       (NetworkFailure 5 :: unit PositionsResult exchange)
       (NetworkFailure 5) (NetworkFailure 5) (NetworkFailure 5))
     = Some context_header
   \<and> context_header \<noteq> ''''
   \<and> map_option system (returned (POST test_host Map.empty
       (NetworkFailure 5 :: unit PositionsResult exchange)
       (NetworkFailure 5) (NetworkFailure 5) (NetworkFailure 5) ()))
     \<noteq> Some ATHEY_SYSTEM_PROMPT"
proof -
  have failed: "transport_failed (NetworkFailure 5 :: 'a exchange)" for x :: 'a
    by (simp add: transport_failed_def)
  have iss: "returned (getISSPosition test_host Map.empty
       (NetworkFailure 5 :: unit PositionsResult exchange)) = Some None"
    by (simp add: getISSPosition_of_null getSatellitePosition_failed failed)
  have ctx: "returned (getSpaceContext test_host Map.empty
       (NetworkFailure 5 :: unit PositionsResult exchange)
       (NetworkFailure 5) (NetworkFailure 5) (NetworkFailure 5))
     = Some context_header"
    by (simp add: getSpaceContext_block [OF iss] getLatestSpaceXLaunch_failed
        getUpcomingSpaceXLaunches_failed getNasaAPOD_failed failed datable_def
        context_block_def present_sections_def)
  have "context_header \<noteq> ''''"
    by (simp add: context_header_def)
  with ctx show ?thesis
    by (simp add: POST_returned)
qed

text \<open>
  C1, amended. If every provider returns its sentinel, \<open>getSpaceContext\<close> does not fail
  and returns the bare header line, with no section; the system prompt handed to the
  engine is the policy text followed by that header. The system prompt is the policy text
  alone exactly when the context is the empty string.
\<close>

theorem all_absent_gives_bare_header:
  assumes "returned (getISSPosition h env xiss) = Some None"
    and "returned (getLatestSpaceXLaunch xlatest) = Some None"
    and "returned (getUpcomingSpaceXLaunches xupcoming 3) = Some []"
    and "returned (getNasaAPOD env xapod) = Some None"
  shows "returned (getSpaceContext h env xiss xlatest xupcoming xapod) = Some context_header
       \<and> \<not> raises (getSpaceContext h env xiss xlatest xupcoming xapod)
       \<and> returned (POST h env xiss xlatest xupcoming xapod msgs)
           = Some \<lparr>model = ''gemini-2.5-flash'',
                   system = ATHEY_SYSTEM_PROMPT @ context_header, messages = msgs\<rparr>
       \<and> (enhancedSystemPrompt spaceContext = ATHEY_SYSTEM_PROMPT \<longleftrightarrow> spaceContext = [])"
  by (simp add: getSpaceContext_block [OF assms] POST_returned getSpaceContext_total
      datable_def context_block_def present_sections_def enhancedSystemPrompt_def)

theorem all_absent_gives_bare_header_witness:
  "returned (getSpaceContext test_host Map.empty
       (Response 40 200 (Json \<lparr>info = (), positions = Some [iss_fixture]\<rparr>))
       (Response 9 500 NotJson) (Response 9 200 NotJson) (NetworkFailure 9))
     = Some context_header
   \<and> returned (POST test_host Map.empty
       (Response 40 200 (Json \<lparr>info = (), positions = Some [iss_fixture]\<rparr>))
       (Response 9 500 NotJson) (Response 9 200 NotJson) (NetworkFailure 9) ())
     = Some \<lparr>model = ''gemini-2.5-flash'',
             system = ATHEY_SYSTEM_PROMPT @ context_header, messages = ()\<rparr>"
proof -
  have iss: "returned (getISSPosition test_host Map.empty
       (Response 40 200 (Json \<lparr>info = (), positions = Some [iss_fixture]\<rparr>))) = Some None"
    by (simp add: getISSPosition_of_null getSatellitePosition_no_key truthy_def)
  have latest: "returned (getLatestSpaceXLaunch (Response 9 500 NotJson)) = Some None"
    by (simp add: getLatestSpaceXLaunch_failed transport_failed_def)
  have launches: "returned (getUpcomingSpaceXLaunches (Response 9 200 NotJson) 3) = Some []"
    by (simp add: getUpcomingSpaceXLaunches_failed transport_failed_def)
  have apod: "returned (getNasaAPOD Map.empty (NetworkFailure 9)) = Some None"
    by (simp add: getNasaAPOD_failed transport_failed_def)
  from all_absent_gives_bare_header [OF iss latest launches apod, of "()"] show ?thesis
    by simp
qed

section \<open>Time\<close>

lemma getSpaceContext_elapsed:
  "elapsed (getSpaceContext h env xiss xlatest xupcoming xapod)
     = max (max (elapsed (getISSPosition h env xiss)) (elapsed (getLatestSpaceXLaunch xlatest)))
         (max (elapsed (getUpcomingSpaceXLaunches xupcoming 3)) (elapsed (getNasaAPOD env xapod)))"
  by (simp add: getSpaceContext_cases Let_def)

lemma getSpaceContext_fetches:
  "fetches (getSpaceContext h env xiss xlatest xupcoming xapod)
     = fetches (getISSPosition h env xiss) @ fetches (getLatestSpaceXLaunch xlatest)
       @ fetches (getUpcomingSpaceXLaunches xupcoming 3) @ fetches (getNasaAPOD env xapod)"
  by (simp add: getSpaceContext_cases Let_def fetches_def)

lemma one_fetch_each:
  "length (fetches (getISSPosition h env xiss)) \<le> 1"
  "length (fetches (getLatestSpaceXLaunch xlatest)) = 1"
  "length (fetches (getUpcomingSpaceXLaunches xupcoming limit)) = 1"
  "length (fetches (getNasaAPOD env xapod)) = 1"
proof -
  show "length (fetches (getISSPosition h env xiss)) \<le> 1"
  proof (cases "truthy (env ''N2YO_API_KEY'')")
    case True
    then show ?thesis
      by (simp add: getISSPosition_fetches)
  next
    case False
    then show ?thesis
      by (simp add: getISSPosition_def fetches_bind_return getSatellitePosition_no_key
          fetches_def io_return_def)
  qed
qed (simp_all add: getLatestSpaceXLaunch_def getUpcomingSpaceXLaunches_def getNasaAPOD_def
    Let_def guarded_fetch_fetches)

text \<open>
  C3, as stated, fails: there is no deadline. With the ISS exchange taking 121 seconds,
  longer than \<open>maxDuration\<close>, the aggregation returns after 121 seconds, and the late
  position is present in the context.
\<close>

theorem no_deadline_counterexample:
  "elapsed (getSpaceContext test_host keyed_env
       (Response 121000 200 (Json \<lparr>info = (), positions = Some [iss_fixture]\<rparr>))
       (Response 50 200 (Json (launch_fixture ''Crew-5'' ''2022-10-05'' 187 (Some True))))
       (NetworkFailure 50) (NetworkFailure 50))
     = 121000
   \<and> maxDuration * 1000 < 121000
   \<and> returned (getSpaceContext test_host keyed_env
       (Response 121000 200 (Json \<lparr>info = (), positions = Some [iss_fixture]\<rparr>))
       (Response 50 200 (Json (launch_fixture ''Crew-5'' ''2022-10-05'' 187 (Some True))))
       (NetworkFailure 50) (NetworkFailure 50))
     = Some (context_block test_host
         (Some iss_fixture, Some (launch_fixture ''Crew-5'' ''2022-10-05'' 187 (Some True)),
          [], None))"
proof -
  have key: "truthy (keyed_env ''N2YO_API_KEY'')"
    by (simp add: keyed_env_def truthy_def)
  have iss: "returned (getISSPosition test_host keyed_env
       (Response 121000 200 (Json \<lparr>info = (), positions = Some [iss_fixture]\<rparr>)))
     = Some (Some iss_fixture)"
    using key by (simp add: getISSPosition_value getSatellitePosition_ok)
  have latest: "returned (getLatestSpaceXLaunch
        (Response 50 200 (Json (launch_fixture ''Crew-5'' ''2022-10-05'' 187 (Some True)))))
     = Some (Some (launch_fixture ''Crew-5'' ''2022-10-05'' 187 (Some True)))"
    by (simp add: getLatestSpaceXLaunch_def guarded_fetch)
  have datable: "datable (Some iss_fixture)"
    by (simp add: datable_def valid_time_fixture)
  show ?thesis
    using key datable
    by (simp add: getSpaceContext_elapsed elapsed_calls latency_def maxDuration_def
        getSpaceContext_block [OF iss latest] getUpcomingSpaceXLaunches_failed
        getNasaAPOD_failed transport_failed_def)
qed

text \<open>
  C3, amended. The aggregator has no deadline of its own: it returns when the slowest of
  the four calls has completed, each call taking as long as its one exchange (the ISS call
  takes no time when the satellite credential is missing). What it returns is the same
  for every choice of the four latencies, so a slow provider is not turned into an absent
  one and a prompt sibling stays present. No call is retried: at most one request goes to
  each provider.
\<close>

theorem aggregation_waits_for_slowest_call:
  "elapsed (getSpaceContext h env xiss xlatest xupcoming xapod)
     = max (max (if truthy (env ''N2YO_API_KEY'') then latency xiss else 0) (latency xlatest))
         (max (latency xupcoming) (latency xapod))
   \<and> returned (getSpaceContext h env (delayed t1 xiss) (delayed t2 xlatest)
                (delayed t3 xupcoming) (delayed t4 xapod))
       = returned (getSpaceContext h env xiss xlatest xupcoming xapod)
   \<and> latency (delayed t1 xiss) = t1
   \<and> length (fetches (getSpaceContext h env xiss xlatest xupcoming xapod)) \<le> 4"
proof (intro conjI)
  show "length (fetches (getSpaceContext h env xiss xlatest xupcoming xapod)) \<le> 4"
    using one_fetch_each(1) [of h env xiss]
    by (simp add: getSpaceContext_fetches one_fetch_each(2-))
  show "latency (delayed t1 xiss) = t1"
    by (simp add: latency_def delayed_def split: exchange.splits)
qed (simp_all add: getSpaceContext_elapsed elapsed_calls getSpaceContext_delayed)

theorem aggregation_waits_for_slowest_call_witness:
  "elapsed (getSpaceContext test_host keyed_env
       (Response 900 200 (Json \<lparr>info = (), positions = Some [iss_fixture]\<rparr>))
       (NetworkFailure 50) (NetworkFailure 60) (NetworkFailure 70))
     = 900"
  using aggregation_waits_for_slowest_call [of test_host keyed_env
      "Response 900 200 (Json \<lparr>info = (), positions = Some [iss_fixture]\<rparr>)"
      "NetworkFailure 50" "NetworkFailure 60" "NetworkFailure 70"]
  by (simp add: latency_def keyed_env_def truthy_def)

section \<open>The system prompt\<close>

lemma getSpaceContext_delimited:
  "\<exists>spaceContext. returned (getSpaceContext h env xiss xlatest xupcoming xapod) = Some spaceContext
      \<and> (spaceContext = [] \<or> prefix context_header spaceContext)"
  by (simp add: getSpaceContext_cases Let_def context_block_header)

text \<open>
  C5. The system prompt is the policy text followed by the context, and nothing else: the
  policy text is its prefix and the context is what follows. \<open>POST\<close> hands the engine
  exactly this string, built from what \<open>getSpaceContext\<close> returned, which is empty or
  starts with the header line. The prompt is a function of the environment and of what
  the providers answered: how long they took does not enter it.
\<close>

theorem system_prompt_is_policy_then_context:
  "enhancedSystemPrompt spaceContext = ATHEY_SYSTEM_PROMPT @ spaceContext
   \<and> prefix ATHEY_SYSTEM_PROMPT (enhancedSystemPrompt spaceContext)
   \<and> drop (length ATHEY_SYSTEM_PROMPT) (enhancedSystemPrompt spaceContext) = spaceContext
   \<and> (\<exists>ctx. returned (getSpaceContext h env xiss xlatest xupcoming xapod) = Some ctx
         \<and> (ctx = [] \<or> prefix context_header ctx)
         \<and> returned (POST h env xiss xlatest xupcoming xapod msgs)
             = Some \<lparr>model = ''gemini-2.5-flash'', system = enhancedSystemPrompt ctx,
                     messages = msgs\<rparr>)
   \<and> returned (POST h env (delayed t1 xiss) (delayed t2 xlatest) (delayed t3 xupcoming)
                (delayed t4 xapod) msgs)
       = returned (POST h env xiss xlatest xupcoming xapod msgs)"
proof (intro conjI)
  from getSpaceContext_delimited [of h env xiss xlatest xupcoming xapod]
  show "\<exists>ctx. returned (getSpaceContext h env xiss xlatest xupcoming xapod) = Some ctx
         \<and> (ctx = [] \<or> prefix context_header ctx)
         \<and> returned (POST h env xiss xlatest xupcoming xapod msgs)
             = Some \<lparr>model = ''gemini-2.5-flash'', system = enhancedSystemPrompt ctx,
                     messages = msgs\<rparr>"
    by (auto simp: POST_returned enhancedSystemPrompt_def)
qed (simp_all add: enhancedSystemPrompt_def POST_returned getSpaceContext_delayed)

theorem system_prompt_is_policy_then_context_witness:
  "returned (POST test_host keyed_env
       (Response 40 200 (Json \<lparr>info = (), positions = Some [iss_fixture]\<rparr>))
       (NetworkFailure 7) (NetworkFailure 7) (NetworkFailure 7) ''What is the ISS?'')
     = Some \<lparr>model = ''gemini-2.5-flash'',
             system = ATHEY_SYSTEM_PROMPT @ context_header
               @ ''\<newline>### ISS Current Position:\<newline>- Latitude: 51.5074'' @ degree_sign
               @ ''\<newline>- Longitude: -0.1278'' @ degree_sign
               @ ''\<newline>- Altitude: 408.00 km\<newline>- Updated: 2023-11-14T22:13:20.000Z\<newline>'',
             messages = ''What is the ISS?''\<rparr>"
proof -
  have key: "truthy (keyed_env ''N2YO_API_KEY'')"
    by (simp add: keyed_env_def truthy_def)
  have iss: "returned (getISSPosition test_host keyed_env
       (Response 40 200 (Json \<lparr>info = (), positions = Some [iss_fixture]\<rparr>)))
     = Some (Some iss_fixture)"
    using key by (simp add: getISSPosition_value getSatellitePosition_ok)
  have "datable (Some iss_fixture)"
    by (simp add: datable_def valid_time_fixture)
  then have ctx: "returned (getSpaceContext test_host keyed_env
       (Response 40 200 (Json \<lparr>info = (), positions = Some [iss_fixture]\<rparr>))
       (NetworkFailure 7) (NetworkFailure 7) (NetworkFailure 7))
     = Some (context_header
            @ ''\<newline>### ISS Current Position:\<newline>- Latitude: 51.5074'' @ degree_sign
            @ ''\<newline>- Longitude: -0.1278'' @ degree_sign
            @ ''\<newline>- Altitude: 408.00 km\<newline>- Updated: 2023-11-14T22:13:20.000Z\<newline>'')"
    by (simp add: getSpaceContext_block [OF iss] getLatestSpaceXLaunch_failed
        getUpcomingSpaceXLaunches_failed getNasaAPOD_failed transport_failed_def
        context_block_iss_first iss_section_fixture present_sections_def
        del: render_section.simps)
  from system_prompt_is_policy_then_context [of _ test_host keyed_env
      "Response 40 200 (Json \<lparr>info = (), positions = Some [iss_fixture]\<rparr>)"
      "NetworkFailure 7" "NetworkFailure 7" "NetworkFailure 7" "''What is the ISS?''"]
  obtain c where "returned (getSpaceContext test_host keyed_env
       (Response 40 200 (Json \<lparr>info = (), positions = Some [iss_fixture]\<rparr>))
       (NetworkFailure 7) (NetworkFailure 7) (NetworkFailure 7)) = Some c"
    and "returned (POST test_host keyed_env
       (Response 40 200 (Json \<lparr>info = (), positions = Some [iss_fixture]\<rparr>))
       (NetworkFailure 7) (NetworkFailure 7) (NetworkFailure 7) ''What is the ISS?'')
     = Some \<lparr>model = ''gemini-2.5-flash'', system = enhancedSystemPrompt c,
             messages = ''What is the ISS?''\<rparr>"
    by blast
  with ctx show ?thesis
    by (simp add: enhancedSystemPrompt_def)
qed

end
